theory Spec2Isabelle
  imports
    Main
    "HOL-Library.Word"
    "HOL-Library.Signed_Division"
    "HOL-Library.Mapping"
begin

section \<open>valkey-manager: cluster topology formation\<close>

text \<open>
  A shallow embedding of \<^verbatim>\<open>cluster/cluster.go\<close> (the planner, the role
  configurator and the update handler) and \<^verbatim>\<open>cluster/info.go\<close> (the reader
  of the \<^verbatim>\<open>CLUSTER INFO\<close> report).

  Go's \<^verbatim>\<open>int\<close> is modelled as \<^typ>\<open>int\<close>. Every \<^verbatim>\<open>int\<close> of the
  program is derived from the \<^verbatim>\<open>int32\<close> replica count and the \<^verbatim>\<open>uint32\<close>
  member index by one division, one product with a slot size of at most 16384 and one
  sum, so no value leaves the 64-bit range and no wrap-around is written out. Go's
  \<^verbatim>\<open>/\<close> and \<^verbatim>\<open>%\<close> truncate towards zero: they are \<open>sdiv\<close> and \<open>smod\<close>,
  and a zero divisor is a run-time panic. Logging (\<^verbatim>\<open>slog\<close>) has no effect on
  control flow and is left out.
\<close>

subsection \<open>Constants of \<^verbatim>\<open>cluster.go\<close>\<close>

definition TotalSlotCount :: int where
  "TotalSlotCount = 16384"

definition NodeNamePrefix :: string where
  "NodeNamePrefix = ''valkey-''"

definition NodeNameSuffix :: string where
  "NodeNameSuffix = ''.valkey''"

definition ValkeyPort :: int where
  "ValkeyPort = 6379"

subsection \<open>The topology planner\<close>

text \<open>
  \<^verbatim>\<open>primaries = max(1, totalCount/2); return primaries, totalCount - primaries\<close>
\<close>

definition primariesAndReplicas :: "int \<Rightarrow> int \<times> int" where
  "primariesAndReplicas totalCount =
     (let primaries = max 1 (totalCount sdiv 2)
      in (primaries, totalCount - primaries))"

text \<open>
  The sources hold a second, earlier copy of \<^verbatim>\<open>cluster.go\<close> (written against
  another client library, with \<^verbatim>\<open>ourIndex int\<close>), whose planner is
  \<^verbatim>\<open>primaries = (totalCount + 1) / 2; replicas = (totalCount - primaries) / primaries\<close>.
  It is kept here only to record that the two differ; everything below is about the
  current function.
\<close>

definition primariesAndReplicas_earlier :: "int \<Rightarrow> (int \<times> int) option" where
  "primariesAndReplicas_earlier totalCount =
     (let primaries = (totalCount + 1) sdiv 2
      in if primaries = 0 then None
         else Some (primaries, (totalCount - primaries) sdiv primaries))"

text \<open>
  \<^verbatim>\<open>return TotalSlotCount / int(primaryCount)\<close>: the division panics when
  \<open>primaryCount\<close> is zero, which is the value \<open>None\<close> here.
\<close>

definition slotSize :: "int \<Rightarrow> int option" where
  "slotSize primaryCount =
     (if primaryCount = 0 then None else Some (TotalSlotCount sdiv primaryCount))"

text \<open>
  The two locals of \<^verbatim>\<open>ConfigurePrimaryNode\<close>:
  \<^verbatim>\<open>firstSlot := int(ourIndex) * slotSize(primaryCount)\<close> and
  \<^verbatim>\<open>lastSlot := max(TotalSlotCount, firstSlot+slotSize(primaryCount)) - 1\<close>.
  Both are the arguments of the \<^verbatim>\<open>CLUSTER ADDSLOTSRANGE\<close> command, whose range
  is inclusive at both ends.
\<close>

definition slotRange :: "int \<Rightarrow> int \<Rightarrow> (int \<times> int) option" where
  "slotRange ourIndex primaryCount =
     (case slotSize primaryCount of
        None \<Rightarrow> None
      | Some size1 \<Rightarrow>
          (let firstSlot = ourIndex * size1 in
           case slotSize primaryCount of
             None \<Rightarrow> None
           | Some size2 \<Rightarrow>
               (let lastSlot = max TotalSlotCount (firstSlot + size2) - 1
                in Some (firstSlot, lastSlot))))"

text \<open>The slots a primary asks for: every slot from \<open>firstSlot\<close> to \<open>lastSlot\<close>.\<close>

definition slotsOf :: "int \<Rightarrow> int \<Rightarrow> int set" where
  "slotsOf ourIndex primaryCount =
     (case slotRange ourIndex primaryCount of
        None \<Rightarrow> {}
      | Some (firstSlot, lastSlot) \<Rightarrow> {firstSlot..lastSlot})"

subsection \<open>Errors\<close>

text \<open>
  One constructor for each error the package builds; \<^verbatim>\<open>%w\<close> wraps the cause.
  \<open>Lib\<close> is an error value made outside the package (the store client, the
  resolver, the context).
\<close>

datatype err =
    Lib string
  | NoReplicaCount \<comment> \<open>failed to locate replica count; cannot configure cluster\<close>
  | WaitLocalPing err \<comment> \<open>failed to wait for local redis ping to succeed\<close>
  | EnsureInitialized err \<comment> \<open>failed to ensure cluster is initialized\<close>
  | ReadClusterInfo err \<comment> \<open>failed to read cluster info\<close>
  | SetSlotRange int int int err \<comment> \<open>failed to set slot range (first - last) on node\<close>
  | LookupIPFailed string err \<comment> \<open>failed to lookup IP for name\<close>
  | NoIPsFound string \<comment> \<open>no IPs found for name\<close>
  | FindPrimaryIP err \<comment> \<open>failed to find IP for our primary\<close>
  | WaitPrimary string err \<comment> \<open>failed to wait for our primary to come alive\<close>
  | NoClusterInfoFound \<comment> \<open>no cluster info found\<close>

subsection \<open>The cluster info reader (\<^verbatim>\<open>info.go\<close>)\<close>

definition StateInfoKey :: string where
  "StateInfoKey = ''cluster_state''"

definition StateUnknown :: string where
  "StateUnknown = []"

definition StateOK :: string where
  "StateOK = ''ok''"

definition StateFail :: string where
  "StateFail = ''fail''"

definition EpochInfoKey :: string where
  "EpochInfoKey = ''cluster_current_epoch''"

definition KnownNodeCountInfoKey :: string where
  "KnownNodeCountInfoKey = ''cluster_known_nodes''"

definition SizeInfoKey :: string where
  "SizeInfoKey = ''cluster_size''"

definition SlotsAssignedInfoKey :: string where
  "SlotsAssignedInfoKey = ''cluster_slots_assigned''"

definition LocalEpochInfoKey :: string where
  "LocalEpochInfoKey = ''cluster_current_epoch''"

text \<open>\<^verbatim>\<open>type Info map[string]string\<close>; \<open>None\<close> is the nil map.\<close>

type_synonym Info = "(string, string) mapping option"

text \<open>
  \<^verbatim>\<open>bufio.NewScanner\<close> with its default split function \<^verbatim>\<open>ScanLines\<close>: a
  token is the text up to the next line feed, without one trailing carriage return; the
  text after the last line feed is a token when it is not empty. The scanner's buffer
  holds \<^verbatim>\<open>MaxScanTokenSize\<close> bytes: at a longer line \<^verbatim>\<open>Scan\<close> returns false
  and the loop of \<^verbatim>\<open>InfoFromString\<close>, which does not look at the scanner's
  error, ends there.
\<close>

definition MaxScanTokenSize :: nat where
  "MaxScanTokenSize = 65536"

definition dropCR :: "string \<Rightarrow> string" where
  "dropCR data = (if data \<noteq> [] \<and> last data = CHR 0x0D then butlast data else data)"

fun scanTokens :: "string \<Rightarrow> string \<Rightarrow> string list" where
  "scanTokens cur [] =
     (if cur = [] \<or> MaxScanTokenSize \<le> length cur then [] else [dropCR cur])"
| "scanTokens cur (c # cs) =
     (if c = CHR 0x0A
      then (if MaxScanTokenSize \<le> length cur then []
            else dropCR cur # scanTokens [] cs)
      else scanTokens (cur @ [c]) cs)"

definition ScanLines :: "string \<Rightarrow> string list" where
  "ScanLines data = scanTokens [] data"

text \<open>\<^verbatim>\<open>strings.Split(s, sep)\<close> for a separator of one byte.\<close>

fun Split :: "string \<Rightarrow> char \<Rightarrow> string list" where
  "Split [] sep = [[]]"
| "Split (c # cs) sep =
     (if c = sep then [] # Split cs sep
      else (case Split cs sep of
              [] \<Rightarrow> [[c]]
            | piece # pieces \<Rightarrow> (c # piece) # pieces))"

text \<open>
  The body of the scanning loop: a line that does not split into two pieces is skipped,
  any other is stored under its first piece.
\<close>

definition addLine :: "(string, string) mapping \<Rightarrow> string \<Rightarrow> (string, string) mapping" where
  "addLine i text =
     (let pieces = Split text (CHR '':'')
      in if length pieces \<noteq> 2 then i
         else Mapping.update (pieces ! 0) (pieces ! 1) i)"

definition InfoFromString :: "string \<Rightarrow> err + Info" where
  "InfoFromString input =
     (let i = foldl addLine Mapping.empty (ScanLines input)
      in if Mapping.size i < 1 then Inl NoClusterInfoFound else Inr (Some i))"

text \<open>
  \<^verbatim>\<open>strconv.ParseInt(valString, 10, 32)\<close>: an optional sign and then decimal
  digits only; \<open>None\<close> stands for either of its errors (syntax, range). The
  value of a digit is its byte less the byte of the digit zero, 48.
\<close>

definition digitVal :: "char \<Rightarrow> nat option" where
  "digitVal c =
     (let code = (of_char c :: nat)
      in if 48 \<le> code \<and> code \<le> 57 then Some (code - 48) else None)"

fun parseDigits :: "nat \<Rightarrow> string \<Rightarrow> nat option" where
  "parseDigits n [] = Some n"
| "parseDigits n (c # cs) =
     (case digitVal c of
        None \<Rightarrow> None
      | Some d \<Rightarrow> parseDigits (n * 10 + d) cs)"

definition ParseInt32 :: "string \<Rightarrow> int option" where
  "ParseInt32 s =
     (if s = [] then None
      else
        let neg = (hd s = CHR ''-'');
            s' = (if hd s = CHR ''+'' \<or> hd s = CHR ''-'' then tl s else s)
        in if s' = [] then None
           else (case parseDigits 0 s' of
                   None \<Rightarrow> None
                 | Some un \<Rightarrow>
                     if \<not> neg \<and> 2 ^ 31 \<le> un then None
                     else if neg \<and> 2 ^ 31 < un then None
                     else Some (if neg then - int un else int un)))"

definition getInt32 :: "Info \<Rightarrow> string \<Rightarrow> int" where
  "getInt32 ci keyName =
     (case ci of
        None \<Rightarrow> - 1
      | Some m \<Rightarrow>
          (case Mapping.lookup m keyName of
             None \<Rightarrow> - 1
           | Some valString \<Rightarrow>
               (case ParseInt32 valString of
                  None \<Rightarrow> - 1
                | Some val \<Rightarrow> val)))"

definition ClusterEpoch :: "Info \<Rightarrow> int" where
  "ClusterEpoch ci = getInt32 ci EpochInfoKey"

definition LocalEpoch :: "Info \<Rightarrow> int" where
  "LocalEpoch ci = getInt32 ci LocalEpochInfoKey"

definition Size :: "Info \<Rightarrow> int" where
  "Size ci = getInt32 ci SizeInfoKey"

definition SlotsAssigned :: "Info \<Rightarrow> int" where
  "SlotsAssigned ci = getInt32 ci SlotsAssignedInfoKey"

definition KnownNodeCount :: "Info \<Rightarrow> int" where
  "KnownNodeCount ci = getInt32 ci KnownNodeCountInfoKey"

definition State :: "Info \<Rightarrow> string" where
  "State ci =
     (case ci of
        None \<Rightarrow> StateUnknown
      | Some m \<Rightarrow>
          (case Mapping.lookup m StateInfoKey of
             None \<Rightarrow> StateUnknown
           | Some stateString \<Rightarrow> stateString))"

subsection \<open>The world outside the package\<close>

text \<open>
  The commands the package builds with the client's command builder.
\<close>

datatype command =
    Ping
  | ClusterInfo
  | ClusterAddslotsrange int int
  | ClusterMeet string int
  | ClusterReplicate string

text \<open>
  Every call that leaves the package is an event: creating a client for an address,
  running a command on the client of an address, resolving a name, and the
  \<^verbatim>\<open>select\<close> of \<^verbatim>\<open>WaitPing\<close> between the context and the timer. The events
  so far, in order, are the state that the functions pass along.
\<close>

datatype event =
    NewClient string
  | Do string command
  | LookupIP string
  | Select

text \<open>
  What the outside answers is a function of the events so far, the call being answered
  last. \<open>NewClient_err\<close> is the error of \<^verbatim>\<open>valkey.NewClient\<close>, \<open>Do_reply\<close> the
  text or the error of a command's reply, \<open>LookupIP_reply\<close> the addresses (already in
  their text form) or the error of \<^verbatim>\<open>net.LookupIP\<close>, and \<open>ctx_Done\<close> the
  context's error when the context is done before the timer fires.

  \<^verbatim>\<open>InfoFromReader\<close> is called by \<^verbatim>\<open>ConfigurePrimaryNode\<close> and declared in
  none of the source files (\<^verbatim>\<open>info.go\<close> has \<^verbatim>\<open>InfoFromString\<close> only); it is
  a parameter here, from the text of the reply to a snapshot or an error.
\<close>

record env =
  NewClient_err :: "event list \<Rightarrow> err option"
  Do_reply :: "event list \<Rightarrow> err + string"
  LookupIP_reply :: "event list \<Rightarrow> err + string list"
  ctx_Done :: "event list \<Rightarrow> err option"
  InfoFromReader :: "string \<Rightarrow> err + Info"

text \<open>
  A function of the package either returns or panics; Go's \<^verbatim>\<open>error\<close> result is
  an \<^typ>\<open>err option\<close>, \<open>None\<close> for \<^verbatim>\<open>nil\<close>.
\<close>

datatype 'a outcome = Returns 'a | Panics

subsection \<open>Names and addresses\<close>

text \<open>\<^verbatim>\<open>strconv.FormatInt(i, 10)\<close> and \<^verbatim>\<open>strconv.Itoa\<close>.\<close>

definition digitChar :: "nat \<Rightarrow> char" where
  "digitChar d = ''0123456789'' ! d"

fun formatNat :: "nat \<Rightarrow> string" where
  "formatNat n =
     (if n < 10 then [digitChar n] else formatNat (n div 10) @ [digitChar (n mod 10)])"

declare formatNat.simps [simp del]

definition FormatInt :: "int \<Rightarrow> string" where
  "FormatInt i = (if i < 0 then CHR ''-'' # formatNat (nat (- i)) else formatNat (nat i))"

text \<open>\<^verbatim>\<open>net.JoinHostPort\<close>: a host with a colon is put in brackets.\<close>

definition JoinHostPort :: "string \<Rightarrow> string \<Rightarrow> string" where
  "JoinHostPort host port =
     (if CHR '':'' \<in> set host then ''['' @ host @ '']:'' @ port
      else host @ '':'' @ port)"

definition nodeName :: "int \<Rightarrow> string" where
  "nodeName index = NodeNamePrefix @ FormatInt index @ NodeNameSuffix"

definition nodeIP :: "env \<Rightarrow> int \<Rightarrow> event list \<Rightarrow> (err + string) \<times> event list" where
  "nodeIP E index t =
     (let t1 = t @ [LookupIP (nodeName index)]
      in case LookupIP_reply E t1 of
           Inl e \<Rightarrow> (Inl (LookupIPFailed (nodeName index) e), t1)
         | Inr ips \<Rightarrow>
             if length ips < 1 then (Inl (NoIPsFound (nodeName index)), t1)
             else (Inr (ips ! 0), t1))"

subsection \<open>The readiness gate\<close>

text \<open>
  \<^verbatim>\<open>WaitPing\<close> loops without a bound: it makes a client, pings, and after a
  failure of either waits in the \<^verbatim>\<open>select\<close>. The result is \<open>None\<close> when the
  loop never ends. The client handle it returns is the address the client was made for.
\<close>

partial_function (option) WaitPing ::
  "env \<Rightarrow> string \<Rightarrow> event list \<Rightarrow> ((err + string) \<times> event list) option" where
  "WaitPing E addr t =
     (case NewClient_err E (t @ [NewClient addr]) of
        None \<Rightarrow>
          (case Do_reply E (t @ [NewClient addr, Do addr Ping]) of
             Inr pong \<Rightarrow> Some (Inr addr, t @ [NewClient addr, Do addr Ping])
           | Inl e \<Rightarrow>
               (case ctx_Done E (t @ [NewClient addr, Do addr Ping, Select]) of
                  Some ce \<Rightarrow> Some (Inl ce, t @ [NewClient addr, Do addr Ping, Select])
                | None \<Rightarrow> WaitPing E addr (t @ [NewClient addr, Do addr Ping, Select])))
      | Some e \<Rightarrow>
          (case ctx_Done E (t @ [NewClient addr, Select]) of
             Some ce \<Rightarrow> Some (Inl ce, t @ [NewClient addr, Select])
           | None \<Rightarrow> WaitPing E addr (t @ [NewClient addr, Select])))"

subsection \<open>The role configurator\<close>

text \<open>
  The loop \<^verbatim>\<open>for peerIndex := range primaryCount\<close> of
  \<^verbatim>\<open>ConfigurePrimaryNode\<close>, over the peer indices still to visit. Each of its three
  \<^verbatim>\<open>continue\<close> statements goes on with the rest.
\<close>

fun meetPeers :: "env \<Rightarrow> string \<Rightarrow> int \<Rightarrow> int list \<Rightarrow> event list \<Rightarrow> event list" where
  "meetPeers E vc ourIndex [] t = t"
| "meetPeers E vc ourIndex (peerIndex # rest) t =
     (if peerIndex = ourIndex then meetPeers E vc ourIndex rest t
      else
        (case nodeIP E peerIndex t of
           (Inl e, t1) \<Rightarrow> meetPeers E vc ourIndex rest t1
         | (Inr peerIP, t1) \<Rightarrow>
             (case Do_reply E (t1 @ [Do vc (ClusterMeet peerIP ValkeyPort)]) of
                Inl e \<Rightarrow>
                  meetPeers E vc ourIndex rest (t1 @ [Do vc (ClusterMeet peerIP ValkeyPort)])
              | Inr ok \<Rightarrow>
                  meetPeers E vc ourIndex rest (t1 @ [Do vc (ClusterMeet peerIP ValkeyPort)]))))"

text \<open>
  The block under \<^verbatim>\<open>// Ensure slots are configured.\<close>: \<open>Returns None\<close> when the
  function goes on to the peer loop, \<open>Returns (Some e)\<close> when it returns the error, and
  a panic when \<^verbatim>\<open>slotSize\<close> divides by zero.
\<close>

definition ensureSlots ::
  "env \<Rightarrow> string \<Rightarrow> Info \<Rightarrow> int \<Rightarrow> int \<Rightarrow> event list \<Rightarrow> err option outcome \<times> event list" where
  "ensureSlots E vc clusterInfo ourIndex primaryCount t =
     (if 0 < SlotsAssigned clusterInfo then (Returns None, t)
      else
        (case slotRange ourIndex primaryCount of
           None \<Rightarrow> (Panics, t)
         | Some (firstSlot, lastSlot) \<Rightarrow>
             (case Do_reply E (t @ [Do vc (ClusterAddslotsrange firstSlot lastSlot)]) of
                Inl e \<Rightarrow>
                  (Returns (Some (SetSlotRange firstSlot lastSlot ourIndex e)),
                   t @ [Do vc (ClusterAddslotsrange firstSlot lastSlot)])
              | Inr ok \<Rightarrow>
                  (Returns None, t @ [Do vc (ClusterAddslotsrange firstSlot lastSlot)]))))"

text \<open>
  The block under \<^verbatim>\<open>// Ensure the epoch is set.\<close>: each of its two branches is
  one log call (\<^verbatim>\<open>log.Debug("cluster epoch is configured")\<close> and
  \<^verbatim>\<open>log.Info("setting cluster epoch equal to node index + 1", ...)\<close>), so neither
  adds an event.
\<close>

definition ensureEpoch :: "Info \<Rightarrow> int \<Rightarrow> event list \<Rightarrow> event list" where
  "ensureEpoch clusterInfo ourIndex t = (if 0 < LocalEpoch clusterInfo then t else t)"

definition ConfigurePrimaryNode ::
  "env \<Rightarrow> string \<Rightarrow> int \<Rightarrow> int \<Rightarrow> event list \<Rightarrow> err option outcome \<times> event list" where
  "ConfigurePrimaryNode E vc ourIndex primaryCount t =
     (case Do_reply E (t @ [Do vc ClusterInfo]) of
        Inl e \<Rightarrow> (Returns (Some (ReadClusterInfo e)), t @ [Do vc ClusterInfo])
      | Inr infoReader \<Rightarrow>
          (case InfoFromReader E infoReader of
             Inl e \<Rightarrow> (Returns (Some (ReadClusterInfo e)), t @ [Do vc ClusterInfo])
           | Inr clusterInfo \<Rightarrow>
               (case ensureSlots E vc clusterInfo ourIndex primaryCount
                       (ensureEpoch clusterInfo ourIndex (t @ [Do vc ClusterInfo])) of
                  (Returns None, t2) \<Rightarrow>
                    (Returns None, meetPeers E vc ourIndex [0..primaryCount - 1] t2)
                | (stopped, t2) \<Rightarrow> (stopped, t2))))"

text \<open>
  \<^verbatim>\<open>ourPrimary := ourIndex % primaryCount\<close>, the first statement of
  \<^verbatim>\<open>ConfigureReplicaNode\<close>; \<open>None\<close> is the panic of a zero divisor.
\<close>

definition ourPrimary :: "int \<Rightarrow> int \<Rightarrow> int option" where
  "ourPrimary ourIndex primaryCount =
     (if primaryCount = 0 then None else Some (ourIndex smod primaryCount))"

definition ConfigureReplicaNode ::
  "env \<Rightarrow> string \<Rightarrow> int \<Rightarrow> int \<Rightarrow> event list \<Rightarrow> (err option outcome \<times> event list) option" where
  "ConfigureReplicaNode E vc ourIndex primaryCount t =
     (case ourPrimary ourIndex primaryCount of
        None \<Rightarrow> Some (Panics, t)
      | Some primaryIndex \<Rightarrow>
          (case nodeIP E primaryIndex t of
             (Inl e, t1) \<Rightarrow> Some (Returns (Some (FindPrimaryIP e)), t1)
           | (Inr ourPrimaryIP, t1) \<Rightarrow>
               (let ourPrimaryAddr = JoinHostPort ourPrimaryIP (FormatInt ValkeyPort)
                in case WaitPing E ourPrimaryAddr t1 of
                     None \<Rightarrow> None
                   | Some (Inl e, t2) \<Rightarrow>
                       Some (Returns (Some (WaitPrimary ourPrimaryAddr e)), t2)
                   | Some (Inr primaryClient, t2) \<Rightarrow>
                       (case Do_reply E (t2 @ [Do vc (ClusterReplicate ourPrimaryAddr)]) of
                          Inl e \<Rightarrow>
                            Some (Returns (Some e),
                                  t2 @ [Do vc (ClusterReplicate ourPrimaryAddr)])
                        | Inr ok \<Rightarrow>
                            Some (Returns None,
                                  t2 @ [Do vc (ClusterReplicate ourPrimaryAddr)])))))"

definition EnsureClusterInitialized ::
  "env \<Rightarrow> string \<Rightarrow> int \<Rightarrow> int \<Rightarrow> event list \<Rightarrow> (err option outcome \<times> event list) option" where
  "EnsureClusterInitialized E vc ourIndex primaryCount t =
     (if ourIndex < primaryCount
      then Some (ConfigurePrimaryNode E vc ourIndex primaryCount t)
      else ConfigureReplicaNode E vc ourIndex primaryCount t)"

subsection \<open>One configuration attempt\<close>

text \<open>
  Of the \<^verbatim>\<open>StatefulSet\<close> only \<^verbatim>\<open>Spec.Replicas\<close>, a pointer to an
  \<^verbatim>\<open>int32\<close>, is read; \<open>None\<close> is the nil pointer, for the set and for the field.
  \<^verbatim>\<open>int(*ss.Spec.Replicas)\<close> reads the 32 bits as signed, \<^verbatim>\<open>int(ourIndex)\<close>
  the \<^verbatim>\<open>uint32\<close> as unsigned.
\<close>

record StatefulSet =
  Replicas :: "32 word option"

definition Configure ::
  "env \<Rightarrow> StatefulSet option \<Rightarrow> 32 word \<Rightarrow> event list \<Rightarrow> (err option outcome \<times> event list) option" where
  "Configure E ss ourIndex t =
     (case ss of
        None \<Rightarrow> Some (Returns (Some NoReplicaCount), t)
      | Some s \<Rightarrow>
          (case Replicas s of
             None \<Rightarrow> Some (Returns (Some NoReplicaCount), t)
           | Some replicas \<Rightarrow>
               (case WaitPing E (JoinHostPort ''127.0.0.1'' (FormatInt ValkeyPort)) t of
                  None \<Rightarrow> None
                | Some (Inl e, t1) \<Rightarrow> Some (Returns (Some (WaitLocalPing e)), t1)
                | Some (Inr vc, t1) \<Rightarrow>
                    (let primaryCount = fst (primariesAndReplicas (sint replicas))
                     in case EnsureClusterInitialized E vc (uint ourIndex) primaryCount t1 of
                          None \<Rightarrow> None
                        | Some (Returns (Some e), t2) \<Rightarrow>
                            Some (Returns (Some (EnsureInitialized e)), t2)
                        | Some (Returns None, t2) \<Rightarrow> Some (Returns None, t2)
                        | Some (Panics, t2) \<Rightarrow> Some (Panics, t2)))))"

subsection \<open>The update handler\<close>

record updateHandler =
  clusterConfigured :: bool

text \<open>\<^verbatim>\<open>h := new(updateHandler)\<close>: the flag starts as false.\<close>

definition UpdateHandler :: updateHandler where
  "UpdateHandler = \<lparr>clusterConfigured = False\<rparr>"

definition ClusterConfigured :: "updateHandler \<Rightarrow> bool" where
  "ClusterConfigured h = clusterConfigured h"

text \<open>
  The closure \<^verbatim>\<open>h.updater\<close>, which holds the handler's lock from its first to its
  last statement: one attempt. A panic in \<^verbatim>\<open>Configure\<close> unwinds past both
  assignments.
\<close>

definition updater ::
  "env \<Rightarrow> 32 word \<Rightarrow> updateHandler \<Rightarrow> StatefulSet option \<Rightarrow> event list
     \<Rightarrow> (updateHandler outcome \<times> event list) option" where
  "updater E ourIndex h ss t =
     (case Configure E ss ourIndex t of
        None \<Rightarrow> None
      | Some (Returns (Some e), t1) \<Rightarrow> Some (Returns (h\<lparr>clusterConfigured := False\<rparr>), t1)
      | Some (Returns None, t1) \<Rightarrow> Some (Returns (h\<lparr>clusterConfigured := True\<rparr>), t1)
      | Some (Panics, t1) \<Rightarrow> Some (Panics, t1))"

subsection \<open>Reading the events of a run\<close>

text \<open>The slot assignments among the events, and the names that were resolved.\<close>

fun isAddslotsrange :: "event \<Rightarrow> bool" where
  "isAddslotsrange (Do vc (ClusterAddslotsrange firstSlot lastSlot)) = True"
| "isAddslotsrange e = False"

fun lookupsOf :: "event list \<Rightarrow> string list" where
  "lookupsOf [] = []"
| "lookupsOf (LookupIP name # es) = name # lookupsOf es"
| "lookupsOf (e # es) = lookupsOf es"

text \<open>
  The events the primary path can add for the client \<open>vc\<close>: the status command, a
  slot assignment, a name resolution and a meet on the store's port.
\<close>

fun ofPrimaryPath :: "string \<Rightarrow> event \<Rightarrow> bool" where
  "ofPrimaryPath vc (Do c ClusterInfo) = (c = vc)"
| "ofPrimaryPath vc (Do c (ClusterAddslotsrange firstSlot lastSlot)) = (c = vc)"
| "ofPrimaryPath vc (Do c (ClusterMeet ip port)) = (c = vc \<and> port = ValkeyPort)"
| "ofPrimaryPath vc (LookupIP name) = True"
| "ofPrimaryPath vc e = False"

subsection \<open>Stores for running the functions\<close>

text \<open>
  A store that is up and answers \<^verbatim>\<open>CLUSTER INFO\<close> with the given report and every
  other command with \<open>OK\<close>, a resolver that knows every name, a context that is never
  cancelled, and \<^verbatim>\<open>InfoFromString\<close> as the reader of the report.
\<close>

definition fakeStore :: "string \<Rightarrow> env" where
  "fakeStore report =
     \<lparr>NewClient_err = (\<lambda>t. None),
      Do_reply = (\<lambda>t. case last t of
                          Do vc ClusterInfo \<Rightarrow> Inr report
                        | e \<Rightarrow> Inr ''OK''),
      LookupIP_reply = (\<lambda>t. case last t of
                          LookupIP name \<Rightarrow> Inr [''ip-of-'' @ name]
                        | e \<Rightarrow> Inl (Lib ''no such host'')),
      ctx_Done = (\<lambda>t. None),
      InfoFromReader = InfoFromString\<rparr>"

text \<open>
  The same store among peers that cannot be met: the name of member 0 does not resolve
  and every \<^verbatim>\<open>CLUSTER MEET\<close> fails.
\<close>

definition lonelyStore :: "string \<Rightarrow> env" where
  "lonelyStore report =
     \<lparr>NewClient_err = (\<lambda>t. None),
      Do_reply = (\<lambda>t. case last t of
                          Do vc ClusterInfo \<Rightarrow> Inr report
                        | Do vc (ClusterMeet ip port) \<Rightarrow> Inl (Lib ''connection refused'')
                        | e \<Rightarrow> Inr ''OK''),
      LookupIP_reply = (\<lambda>t. case last t of
                          LookupIP name \<Rightarrow>
                            if name = ''valkey-0.valkey'' then Inl (Lib ''no such host'')
                            else Inr [''ip-of-'' @ name]
                        | e \<Rightarrow> Inl (Lib ''no such host'')),
      ctx_Done = (\<lambda>t. None),
      InfoFromReader = InfoFromString\<rparr>"

section \<open>Properties of the planner\<close>

lemma sdiv_nonneg_eq_div:
  fixes k l :: int
  assumes "0 \<le> k" and "0 < l"
  shows "k sdiv l = k div l"
  using assms by (simp add: signed_divide_int_def sgn_if)

lemma slotSize_pos:
  assumes "1 \<le> primaryCount"
  shows "slotSize primaryCount = Some (16384 div primaryCount)"
  using assms by (simp add: slotSize_def TotalSlotCount_def sdiv_nonneg_eq_div)

lemma slotRange_primary_ends_at_last_slot:
  assumes "1 \<le> primaryCount" and "0 \<le> ourIndex" and "ourIndex < primaryCount"
  shows "slotRange ourIndex primaryCount
           = Some (ourIndex * (16384 div primaryCount), 16383)"
proof -
  let ?s = "16384 div primaryCount"
  have s0: "0 \<le> ?s"
    using assms(1) by (simp add: pos_imp_zdiv_nonneg_iff)
  have "(ourIndex + 1) * ?s \<le> primaryCount * ?s"
    using assms(3) s0 by (intro mult_right_mono) simp_all
  also have "\<dots> \<le> 16384"
    using assms(1) mult_div_mod_eq [of primaryCount 16384]
      pos_mod_sign [of primaryCount 16384]
    by linarith
  finally have "ourIndex * ?s + ?s \<le> 16384"
    by (simp add: algebra_simps)
  then show ?thesis
    using assms(1) by (simp add: slotRange_def slotSize_pos TotalSlotCount_def)
qed

lemma primariesAndReplicas_earlier_differs:
  "primariesAndReplicas_earlier 5 = Some (3, 0) \<and> primariesAndReplicas 5 = (2, 3)"
  by (simp add: primariesAndReplicas_earlier_def primariesAndReplicas_def
      signed_divide_int_def)

text \<open>
  With a member index that is a \<^verbatim>\<open>uint32\<close> and a primary count of at least 1,
  the slot arithmetic stays far inside the 64-bit range of Go's \<^verbatim>\<open>int\<close>.
\<close>

lemma slotRange_fits_int64:
  assumes "0 \<le> ourIndex" and "ourIndex < 2 ^ 32" and "1 \<le> primaryCount"
    and "slotRange ourIndex primaryCount = Some (firstSlot, lastSlot)"
  shows "0 \<le> firstSlot \<and> firstSlot + 16384 div primaryCount < 2 ^ 63
         \<and> 0 \<le> lastSlot \<and> lastSlot < 2 ^ 63"
proof -
  let ?s = "16384 div primaryCount"
  have s0: "0 \<le> ?s"
    using assms(3) by (simp add: pos_imp_zdiv_nonneg_iff)
  have "1 * ?s \<le> primaryCount * ?s"
    using assms(3) s0 by (intro mult_right_mono) simp_all
  moreover have "primaryCount * ?s \<le> 16384"
    using assms(3) mult_div_mod_eq [of primaryCount 16384]
      pos_mod_sign [of primaryCount 16384]
    by linarith
  ultimately have s1: "?s \<le> 16384"
    by simp
  have first: "firstSlot = ourIndex * ?s"
    and last: "lastSlot = max 16384 (firstSlot + ?s) - 1"
    using assms(3,4) by (auto simp: slotRange_def slotSize_pos TotalSlotCount_def Let_def)
  have "ourIndex * ?s \<le> 2 ^ 32 * 16384"
    using assms(1,2) s0 s1 by (intro mult_mono) simp_all
  with first last assms(1) s0 s1 show ?thesis
    by (auto simp: max_def)
qed

text \<open>
  C3. For every total count of at least 1 the planner returns
  \<open>max 1 (totalCount div 2)\<close> primaries (integer division) and the rest as replicas, so
  there is at least one primary and the two counts add up to the total; 1 gives (1, 0),
  5 gives (2, 3) and 6 gives (3, 3).
\<close>

theorem primariesAndReplicas_plan:
  "(1 \<le> totalCount \<longrightarrow>
      primariesAndReplicas totalCount
        = (max 1 (totalCount div 2), totalCount - max 1 (totalCount div 2))
      \<and> 1 \<le> fst (primariesAndReplicas totalCount)
      \<and> fst (primariesAndReplicas totalCount) + snd (primariesAndReplicas totalCount)
          = totalCount)
   \<and> primariesAndReplicas 1 = (1, 0)
   \<and> primariesAndReplicas 5 = (2, 3)
   \<and> primariesAndReplicas 6 = (3, 3)"
  by (simp add: primariesAndReplicas_def sdiv_nonneg_eq_div Let_def)

theorem primariesAndReplicas_plan_witness:
  "(1::int) \<le> 7
   \<and> primariesAndReplicas 7 = (3, 4)
   \<and> 1 \<le> fst (primariesAndReplicas 7)
   \<and> fst (primariesAndReplicas 7) + snd (primariesAndReplicas 7) = 7"
  using primariesAndReplicas_plan [of 7] by simp

text \<open>
  C1, evaluated where it fails. With two primaries, primary 0 asks for the slots 0 to
  16383 and primary 1 for the slots 8192 to 16383: the \<open>max\<close> against the total slot
  count puts the end of every range at the last slot, so slot 8192 is claimed by both
  and the ranges are not disjoint.
\<close>

theorem slotRange_two_primaries_overlap:
  "slotRange 0 2 = Some (0, 16383)
   \<and> slotRange 1 2 = Some (8192, 16383)
   \<and> 8192 \<in> slotsOf 0 2 \<inter> slotsOf 1 2"
  by (simp add: slotsOf_def slotRange_def slotSize_def TotalSlotCount_def
      signed_divide_int_def)

section \<open>Properties of the role configurator\<close>

subsection \<open>Evaluation\<close>

lemmas info_eval = InfoFromString_def ScanLines_def dropCR_def MaxScanTokenSize_def
  addLine_def Mapping.size_def getInt32_def ParseInt32_def digitVal_def
  LocalEpoch_def SlotsAssigned_def LocalEpochInfoKey_def SlotsAssignedInfoKey_def

lemmas name_eval = nodeName_def NodeNamePrefix_def NodeNameSuffix_def FormatInt_def
  formatNat.simps digitChar_def ValkeyPort_def JoinHostPort_def

lemmas plan_eval = primariesAndReplicas_def slotRange_def slotSize_def TotalSlotCount_def
  signed_divide_int_def

lemmas run_eval = ConfigurePrimaryNode_def ensureSlots_def ensureEpoch_def nodeIP_def
  fakeStore_def upto.simps

lemma WaitPing_fakeStore:
  "WaitPing (fakeStore report) addr t = Some (Inr addr, t @ [NewClient addr, Do addr Ping])"
  by (subst WaitPing.simps) (simp add: fakeStore_def)

subsection \<open>What a run adds to the events\<close>

lemma nodeIP_events: "snd (nodeIP E index t) = t @ [LookupIP (nodeName index)]"
  by (simp add: nodeIP_def Let_def split: sum.splits)

lemma meetPeers_extends: "\<exists>es. meetPeers E vc ourIndex peers t = t @ es"
proof (induction peers arbitrary: t)
  case Nil
  show ?case by simp
next
  case (Cons p ps)
  have step: "\<exists>es. meetPeers E vc ourIndex ps (t @ xs) = t @ es" for xs
  proof -
    from Cons [of "t @ xs"] obtain es where
      "meetPeers E vc ourIndex ps (t @ xs) = (t @ xs) @ es"
      by blast
    then show ?thesis by simp
  qed
  show ?case
    using Cons [of t] step
    by (simp add: nodeIP_def Let_def split: sum.splits)
qed

lemma meetPeers_addslots:
  "filter isAddslotsrange (meetPeers E vc ourIndex peers t) = filter isAddslotsrange t"
  by (induction peers arbitrary: t)
    (simp_all add: nodeIP_def Let_def split: sum.splits)

lemma ConfigurePrimaryNode_addslots:
  "filter isAddslotsrange (snd (ConfigurePrimaryNode E vc ourIndex primaryCount t)) =
     filter isAddslotsrange t @
       (case Do_reply E (t @ [Do vc ClusterInfo]) of
          Inl e \<Rightarrow> []
        | Inr report \<Rightarrow>
            (case InfoFromReader E report of
               Inl e \<Rightarrow> []
             | Inr ci \<Rightarrow>
                 if 0 < SlotsAssigned ci then []
                 else (case slotRange ourIndex primaryCount of
                         None \<Rightarrow> []
                       | Some (firstSlot, lastSlot) \<Rightarrow>
                           [Do vc (ClusterAddslotsrange firstSlot lastSlot)])))"
  by (simp add: ConfigurePrimaryNode_def ensureSlots_def ensureEpoch_def meetPeers_addslots
      split: sum.splits option.splits prod.splits)


lemma ConfigurePrimaryNode_no_panic:
  "primaryCount \<noteq> 0 \<Longrightarrow> fst (ConfigurePrimaryNode E vc ourIndex primaryCount t) \<noteq> Panics"
  by (simp add: ConfigurePrimaryNode_def ensureSlots_def ensureEpoch_def slotRange_def
      slotSize_def Let_def split: sum.splits option.splits prod.splits)

text \<open>
  Every event of a primary configuration is one of those four kinds: no other command
  is ever sent to the store on this path.
\<close>

lemma meetPeers_ofPrimaryPath:
  "list_all (ofPrimaryPath vc) (drop (length t) (meetPeers E vc ourIndex peers t))"
proof (induction peers arbitrary: t)
  case Nil
  show ?case by simp
next
  case (Cons p ps)
  have ext: "\<exists>es. meetPeers E vc ourIndex ps (t @ xs) = (t @ xs) @ es" for xs
    using meetPeers_extends [of E vc ourIndex ps "t @ xs"] by blast
  have step: "list_all (ofPrimaryPath vc) (drop (length t) (meetPeers E vc ourIndex ps (t @ xs)))"
    if "list_all (ofPrimaryPath vc) xs" for xs
  proof -
    from ext [of xs] obtain es where es: "meetPeers E vc ourIndex ps (t @ xs) = (t @ xs) @ es"
      by blast
    with Cons [of "t @ xs"] that show ?thesis by simp
  qed
  show ?case
  proof (cases "p = ourIndex")
    case True
    with Cons [of t] show ?thesis by simp
  next
    case False
    with step [of "[LookupIP (nodeName p)]"]
      step [of "[LookupIP (nodeName p), Do vc (ClusterMeet ip ValkeyPort)]" for ip]
    show ?thesis
      by (simp add: nodeIP_def Let_def split: sum.splits)
  qed
qed

lemma ConfigurePrimaryNode_ofPrimaryPath:
  "list_all (ofPrimaryPath vc)
     (drop (length t) (snd (ConfigurePrimaryNode E vc ourIndex primaryCount t)))"
proof -
  have m: "list_all (ofPrimaryPath vc) (drop (length t) (meetPeers E vc ourIndex peers (t @ xs)))"
    if "list_all (ofPrimaryPath vc) xs" for peers xs
  proof -
    from meetPeers_extends [of E vc ourIndex peers "t @ xs"] obtain es where
      "meetPeers E vc ourIndex peers (t @ xs) = (t @ xs) @ es" by blast
    with meetPeers_ofPrimaryPath [of vc "t @ xs" E ourIndex peers] that
    show ?thesis by simp
  qed
  show ?thesis
    using m [of "[Do vc ClusterInfo]"]
      m [of "[Do vc ClusterInfo, Do vc (ClusterAddslotsrange a b)]" for a b]
    by (simp add: ConfigurePrimaryNode_def ensureSlots_def ensureEpoch_def
        split: sum.splits option.splits prod.splits)
qed


subsection \<open>The primary path\<close>

text \<open>
  C2, evaluated where it fails. The report of the store has no epoch field, so the local
  epoch reads as -1, which is not greater than 0. The whole attempt of the only primary
  (index 0 of 1) then consists of the status command and the slot assignment: the branch
  for an unset epoch adds no command, and nothing sets the epoch to index + 1 = 1.
\<close>

theorem ConfigurePrimaryNode_unset_epoch_no_command:
  "InfoFromString ''cluster_state:ok\<newline>''
     = Inr (Some (Mapping.update ''cluster_state'' ''ok'' Mapping.empty))
   \<and> LocalEpoch (Some (Mapping.update ''cluster_state'' ''ok'' Mapping.empty)) = - 1
   \<and> ConfigurePrimaryNode (fakeStore ''cluster_state:ok\<newline>'') ''127.0.0.1:6379'' 0 1 []
       = (Returns None,
          [Do ''127.0.0.1:6379'' ClusterInfo,
           Do ''127.0.0.1:6379'' (ClusterAddslotsrange 0 16383)])"
  by (simp add: run_eval info_eval plan_eval)

text \<open>
  C4. When the status report of the store parses to a snapshot whose slots-assigned count
  is greater than 0, the attempt adds no slot assignment to the events; and whenever an
  attempt does add one, the report was read, its slots-assigned count was not greater
  than 0, and exactly one assignment, for this member's slot range, was added.
\<close>

theorem ConfigurePrimaryNode_slots_idempotent:
  "(Do_reply E (t @ [Do vc ClusterInfo]) = Inr report
      \<and> InfoFromReader E report = Inr ci \<and> 0 < SlotsAssigned ci
    \<longrightarrow> filter isAddslotsrange (snd (ConfigurePrimaryNode E vc ourIndex primaryCount t))
          = filter isAddslotsrange t)
   \<and> (filter isAddslotsrange (snd (ConfigurePrimaryNode E vc ourIndex primaryCount t))
          \<noteq> filter isAddslotsrange t
    \<longrightarrow> (\<exists>report ci firstSlot lastSlot.
           Do_reply E (t @ [Do vc ClusterInfo]) = Inr report
           \<and> InfoFromReader E report = Inr ci
           \<and> SlotsAssigned ci \<le> 0
           \<and> slotRange ourIndex primaryCount = Some (firstSlot, lastSlot)
           \<and> filter isAddslotsrange (snd (ConfigurePrimaryNode E vc ourIndex primaryCount t))
               = filter isAddslotsrange t @ [Do vc (ClusterAddslotsrange firstSlot lastSlot)]))"
  by (auto simp: ConfigurePrimaryNode_addslots split: sum.splits option.splits)

theorem ConfigurePrimaryNode_slots_idempotent_witness:
  "Do_reply (fakeStore ''cluster_slots_assigned:16384\<newline>'') ([] @ [Do ''local'' ClusterInfo])
     = Inr ''cluster_slots_assigned:16384\<newline>''
   \<and> InfoFromReader (fakeStore ''cluster_slots_assigned:16384\<newline>'')
        ''cluster_slots_assigned:16384\<newline>''
      = Inr (Some (Mapping.update ''cluster_slots_assigned'' ''16384'' Mapping.empty))
   \<and> 0 < SlotsAssigned (Some (Mapping.update ''cluster_slots_assigned'' ''16384'' Mapping.empty))
   \<and> filter isAddslotsrange
        (snd (ConfigurePrimaryNode (fakeStore ''cluster_slots_assigned:16384\<newline>'')
                ''local'' 0 2 []))
      = filter isAddslotsrange []
   \<and> filter isAddslotsrange
        (snd (ConfigurePrimaryNode (fakeStore ''cluster_slots_assigned:0\<newline>'')
                ''local'' 0 2 []))
      = [Do ''local'' (ClusterAddslotsrange 0 16383)]"
proof -
  let ?E = "fakeStore ''cluster_slots_assigned:16384\<newline>''"
  let ?ci = "Some (Mapping.update ''cluster_slots_assigned'' ''16384'' Mapping.empty)"
  have reply: "Do_reply ?E ([] @ [Do ''local'' ClusterInfo])
                 = Inr ''cluster_slots_assigned:16384\<newline>''"
    by (simp add: fakeStore_def)
  have parsed: "InfoFromReader ?E ''cluster_slots_assigned:16384\<newline>'' = Inr ?ci"
    by (simp add: fakeStore_def info_eval)
  have assigned: "0 < SlotsAssigned ?ci"
    by (simp add: info_eval)
  have fresh: "filter isAddslotsrange
                 (snd (ConfigurePrimaryNode (fakeStore ''cluster_slots_assigned:0\<newline>'')
                         ''local'' 0 2 []))
               \<noteq> filter isAddslotsrange []"
    by (simp add: run_eval info_eval plan_eval name_eval)
  have range: "slotRange 0 2 = Some (0, 16383)"
    by (simp add: plan_eval)
  from ConfigurePrimaryNode_slots_idempotent
         [of ?E "[]" "''local''" "''cluster_slots_assigned:16384\<newline>''" ?ci 0 2]
       ConfigurePrimaryNode_slots_idempotent
         [of "fakeStore ''cluster_slots_assigned:0\<newline>''" "[]" "''local''" _ _ 0 2]
       reply parsed assigned fresh range
  show ?thesis by auto
qed

lemma lookupsOf_append: "lookupsOf (xs @ ys) = lookupsOf xs @ lookupsOf ys"
  by (induction xs rule: lookupsOf.induct) simp_all

lemma meetPeers_lookups:
  "lookupsOf (meetPeers E vc ourIndex peers t)
     = lookupsOf t @ map nodeName (filter (\<lambda>p. p \<noteq> ourIndex) peers)"
  by (induction peers arbitrary: t)
    (simp_all add: nodeIP_def Let_def lookupsOf_append split: sum.splits)

lemma meetPeers_meets:
  assumes "p \<in> set peers" and "p \<noteq> ourIndex"
  shows "\<exists>pre post.
           meetPeers E vc ourIndex peers t = t @ pre @ LookupIP (nodeName p) # post
           \<and> (\<forall>ip ips. LookupIP_reply E (t @ pre @ [LookupIP (nodeName p)]) = Inr (ip # ips)
                \<longrightarrow> (\<exists>post'. post = Do vc (ClusterMeet ip ValkeyPort) # post'))"
  using assms(1)
proof (induction peers arbitrary: t)
  case Nil
  then show ?case by simp
next
  case (Cons q qs)
  let ?look = "LookupIP (nodeName q)"
  have later: "\<exists>pre post.
           meetPeers E vc ourIndex qs (t @ xs) = t @ pre @ LookupIP (nodeName p) # post
           \<and> (\<forall>ip ips. LookupIP_reply E (t @ pre @ [LookupIP (nodeName p)]) = Inr (ip # ips)
                \<longrightarrow> (\<exists>post'. post = Do vc (ClusterMeet ip ValkeyPort) # post'))"
    if "p \<in> set qs" for xs
  proof -
    from Cons.IH [OF that, of "t @ xs"] obtain pre post where
      "meetPeers E vc ourIndex qs (t @ xs) = (t @ xs) @ pre @ LookupIP (nodeName p) # post"
      "\<forall>ip ips. LookupIP_reply E ((t @ xs) @ pre @ [LookupIP (nodeName p)]) = Inr (ip # ips)
                \<longrightarrow> (\<exists>post'. post = Do vc (ClusterMeet ip ValkeyPort) # post')"
      by blast
    then show ?thesis
      by (intro exI [of _ "xs @ pre"] exI [of _ post]) simp
  qed
  show ?case
  proof (cases "q = ourIndex")
    case True
    with Cons.prems assms(2) have "p \<in> set qs" by auto
    from later [OF this, of "[]"] True show ?thesis by simp
  next
    case False
    show ?thesis
    proof (cases "p = q")
      case True
      obtain es1 where es1: "meetPeers E vc ourIndex qs (t @ [?look]) = (t @ [?look]) @ es1"
        using meetPeers_extends by blast
      have es2: "\<exists>es. meetPeers E vc ourIndex qs (t @ [?look, Do vc (ClusterMeet ip ValkeyPort)])
                        = (t @ [?look, Do vc (ClusterMeet ip ValkeyPort)]) @ es" for ip
        using meetPeers_extends by blast
      show ?thesis
      proof (cases "LookupIP_reply E (t @ [?look])")
        case (Inl e)
        with False True es1 show ?thesis
          by (intro exI [of _ "[]"] exI [of _ es1]) (simp add: nodeIP_def Let_def)
      next
        case (Inr ips)
        show ?thesis
        proof (cases ips)
          case Nil
          with Inr False True es1 show ?thesis
            by (intro exI [of _ "[]"] exI [of _ es1]) (simp add: nodeIP_def Let_def)
        next
          case (Cons ip rest)
          from es2 [of ip] obtain es where
            "meetPeers E vc ourIndex qs (t @ [?look, Do vc (ClusterMeet ip ValkeyPort)])
               = (t @ [?look, Do vc (ClusterMeet ip ValkeyPort)]) @ es"
            by blast
          with Inr Cons False True show ?thesis
            by (intro exI [of _ "[]"] exI [of _ "Do vc (ClusterMeet ip ValkeyPort) # es"])
              (simp add: nodeIP_def Let_def split: sum.splits)
        qed
      qed
    next
      case neq: False
      with Cons.prems have inqs: "p \<in> set qs" by simp
      from later [OF inqs, of "[?look]"]
        later [OF inqs, of "[?look, Do vc (ClusterMeet ip ValkeyPort)]" for ip]
        False
      show ?thesis
        by (simp add: nodeIP_def Let_def split: sum.splits)
    qed
  qed
qed

lemma ConfigurePrimaryNode_reaches_peers:
  assumes "Do_reply E (t @ [Do vc ClusterInfo]) = Inr report"
    and "InfoFromReader E report = Inr ci"
    and "0 < SlotsAssigned ci \<or>
         (\<exists>firstSlot lastSlot ok.
            slotRange ourIndex primaryCount = Some (firstSlot, lastSlot)
            \<and> Do_reply E (t @ [Do vc ClusterInfo, Do vc (ClusterAddslotsrange firstSlot lastSlot)])
                = Inr ok)"
  shows "\<exists>xs. ConfigurePrimaryNode E vc ourIndex primaryCount t
           = (Returns None, meetPeers E vc ourIndex [0..primaryCount - 1] (t @ xs))
         \<and> lookupsOf xs = []"
proof (cases "0 < SlotsAssigned ci")
  case True
  with assms(1,2) show ?thesis
    by (intro exI [of _ "[Do vc ClusterInfo]"])
      (simp add: ConfigurePrimaryNode_def ensureSlots_def ensureEpoch_def)
next
  case False
  with assms(3) obtain firstSlot lastSlot ok where
    "slotRange ourIndex primaryCount = Some (firstSlot, lastSlot)"
    "Do_reply E (t @ [Do vc ClusterInfo, Do vc (ClusterAddslotsrange firstSlot lastSlot)]) = Inr ok"
    by blast
  with False assms(1,2) show ?thesis
    by (intro exI [of _ "[Do vc ClusterInfo, Do vc (ClusterAddslotsrange firstSlot lastSlot)]"])
      (simp add: ConfigurePrimaryNode_def ensureSlots_def ensureEpoch_def)
qed

text \<open>
  C8. Once the status report is read and the slot step is passed (the slots were already
  assigned, or the assignment command succeeded), \<^verbatim>\<open>ConfigurePrimaryNode\<close> returns
  nil whatever the resolver and the store answer for the peers. It resolves the name of
  every peer index from 0 to primaryCount - 1 other than its own, once each and in
  order; and for every such peer, whatever failed at the peers before it, when the
  resolver answers with at least one address the very next event is the
  \<^verbatim>\<open>CLUSTER MEET\<close> to the first address on the store's port. No failure at one peer
  ends the loop or keeps a later peer from being introduced.
\<close>

theorem ConfigurePrimaryNode_peer_failures_skipped:
  assumes "Do_reply E (t @ [Do vc ClusterInfo]) = Inr report"
    and "InfoFromReader E report = Inr ci"
    and "0 < SlotsAssigned ci \<or>
         (\<exists>firstSlot lastSlot ok.
            slotRange ourIndex primaryCount = Some (firstSlot, lastSlot)
            \<and> Do_reply E (t @ [Do vc ClusterInfo, Do vc (ClusterAddslotsrange firstSlot lastSlot)])
                = Inr ok)"
  shows "fst (ConfigurePrimaryNode E vc ourIndex primaryCount t) = Returns None
         \<and> lookupsOf (snd (ConfigurePrimaryNode E vc ourIndex primaryCount t))
             = lookupsOf t @ map nodeName (filter (\<lambda>p. p \<noteq> ourIndex) [0..primaryCount - 1])
         \<and> (\<forall>p. 0 \<le> p \<and> p < primaryCount \<and> p \<noteq> ourIndex \<longrightarrow>
               (\<exists>pre post.
                  snd (ConfigurePrimaryNode E vc ourIndex primaryCount t)
                    = t @ pre @ LookupIP (nodeName p) # post
                  \<and> (\<forall>ip ips.
                        LookupIP_reply E (t @ pre @ [LookupIP (nodeName p)]) = Inr (ip # ips)
                        \<longrightarrow> (\<exists>post'. post = Do vc (ClusterMeet ip ValkeyPort) # post'))))"
proof -
  from ConfigurePrimaryNode_reaches_peers [OF assms] obtain xs where
    run: "ConfigurePrimaryNode E vc ourIndex primaryCount t
            = (Returns None, meetPeers E vc ourIndex [0..primaryCount - 1] (t @ xs))"
    and xs: "lookupsOf xs = []"
    by blast
  have meets: "\<exists>pre post.
                  snd (ConfigurePrimaryNode E vc ourIndex primaryCount t)
                    = t @ pre @ LookupIP (nodeName p) # post
                  \<and> (\<forall>ip ips.
                        LookupIP_reply E (t @ pre @ [LookupIP (nodeName p)]) = Inr (ip # ips)
                        \<longrightarrow> (\<exists>post'. post = Do vc (ClusterMeet ip ValkeyPort) # post'))"
    if "0 \<le> p" "p < primaryCount" "p \<noteq> ourIndex" for p
  proof -
    from that have "p \<in> set [0..primaryCount - 1]" by simp
    from meetPeers_meets [OF this that(3), of E vc "t @ xs"] obtain pre post where
      "meetPeers E vc ourIndex [0..primaryCount - 1] (t @ xs)
         = (t @ xs) @ pre @ LookupIP (nodeName p) # post"
      "\<forall>ip ips. LookupIP_reply E ((t @ xs) @ pre @ [LookupIP (nodeName p)]) = Inr (ip # ips)
         \<longrightarrow> (\<exists>post'. post = Do vc (ClusterMeet ip ValkeyPort) # post')"
      by blast
    with run show ?thesis
      by (intro exI [of _ "xs @ pre"] exI [of _ post]) simp
  qed
  from run xs meets show ?thesis
    by (simp add: meetPeers_lookups lookupsOf_append)
qed

theorem ConfigurePrimaryNode_peer_failures_skipped_witness:
  "ConfigurePrimaryNode (lonelyStore ''cluster_state:ok\<newline>'') ''local'' 1 4 []
     = (Returns None,
        [Do ''local'' ClusterInfo,
         Do ''local'' (ClusterAddslotsrange 4096 16383),
         LookupIP ''valkey-0.valkey'',
         LookupIP ''valkey-2.valkey'',
         Do ''local'' (ClusterMeet ''ip-of-valkey-2.valkey'' 6379),
         LookupIP ''valkey-3.valkey'',
         Do ''local'' (ClusterMeet ''ip-of-valkey-3.valkey'' 6379)])
   \<and> LookupIP_reply (lonelyStore ''cluster_state:ok\<newline>'')
        [Do ''local'' ClusterInfo, Do ''local'' (ClusterAddslotsrange 4096 16383),
         LookupIP ''valkey-0.valkey'']
      = Inl (Lib ''no such host'')
   \<and> Do_reply (lonelyStore ''cluster_state:ok\<newline>'')
        [Do ''local'' ClusterInfo, Do ''local'' (ClusterAddslotsrange 4096 16383),
         LookupIP ''valkey-0.valkey'', LookupIP ''valkey-2.valkey'',
         Do ''local'' (ClusterMeet ''ip-of-valkey-2.valkey'' 6379)]
      = Inl (Lib ''connection refused'')
   \<and> LookupIP_reply (lonelyStore ''cluster_state:ok\<newline>'')
        [Do ''local'' ClusterInfo, Do ''local'' (ClusterAddslotsrange 4096 16383),
         LookupIP ''valkey-0.valkey'', LookupIP ''valkey-2.valkey'',
         Do ''local'' (ClusterMeet ''ip-of-valkey-2.valkey'' 6379),
         LookupIP ''valkey-3.valkey'']
      = Inr [''ip-of-valkey-3.valkey'']
   \<and> fst (ConfigurePrimaryNode (lonelyStore ''cluster_state:ok\<newline>'') ''local'' 1 4 [])
      = Returns None
   \<and> lookupsOf (snd (ConfigurePrimaryNode (lonelyStore ''cluster_state:ok\<newline>'') ''local'' 1 4 []))
      = lookupsOf [] @ map nodeName (filter (\<lambda>p. p \<noteq> 1) [0..4 - 1])"
proof -
  let ?E = "lonelyStore ''cluster_state:ok\<newline>''"
  let ?ci = "Some (Mapping.update ''cluster_state'' ''ok'' Mapping.empty)"
  have reply: "Do_reply ?E ([] @ [Do ''local'' ClusterInfo]) = Inr ''cluster_state:ok\<newline>''"
    by (simp add: lonelyStore_def)
  have parsed: "InfoFromReader ?E ''cluster_state:ok\<newline>'' = Inr ?ci"
    by (simp add: lonelyStore_def info_eval)
  have slots: "0 < SlotsAssigned ?ci \<or>
         (\<exists>firstSlot lastSlot ok.
            slotRange 1 4 = Some (firstSlot, lastSlot)
            \<and> Do_reply ?E ([] @ [Do ''local'' ClusterInfo,
                                  Do ''local'' (ClusterAddslotsrange firstSlot lastSlot)])
                = Inr ok)"
    by (simp add: lonelyStore_def plan_eval)
  have run: "ConfigurePrimaryNode ?E ''local'' 1 4 []
     = (Returns None,
        [Do ''local'' ClusterInfo,
         Do ''local'' (ClusterAddslotsrange 4096 16383),
         LookupIP ''valkey-0.valkey'',
         LookupIP ''valkey-2.valkey'',
         Do ''local'' (ClusterMeet ''ip-of-valkey-2.valkey'' 6379),
         LookupIP ''valkey-3.valkey'',
         Do ''local'' (ClusterMeet ''ip-of-valkey-3.valkey'' 6379)])"
    by (simp add: lonelyStore_def run_eval info_eval plan_eval name_eval)
  have unresolved: "LookupIP_reply ?E
        [Do ''local'' ClusterInfo, Do ''local'' (ClusterAddslotsrange 4096 16383),
         LookupIP ''valkey-0.valkey'']
      = Inl (Lib ''no such host'')"
    by (simp add: lonelyStore_def)
  have refused: "Do_reply ?E
        [Do ''local'' ClusterInfo, Do ''local'' (ClusterAddslotsrange 4096 16383),
         LookupIP ''valkey-0.valkey'', LookupIP ''valkey-2.valkey'',
         Do ''local'' (ClusterMeet ''ip-of-valkey-2.valkey'' 6379)]
      = Inl (Lib ''connection refused'')"
    by (simp add: lonelyStore_def)
  have resolved: "LookupIP_reply ?E
        [Do ''local'' ClusterInfo, Do ''local'' (ClusterAddslotsrange 4096 16383),
         LookupIP ''valkey-0.valkey'', LookupIP ''valkey-2.valkey'',
         Do ''local'' (ClusterMeet ''ip-of-valkey-2.valkey'' 6379),
         LookupIP ''valkey-3.valkey'']
      = Inr [''ip-of-valkey-3.valkey'']"
    by (simp add: lonelyStore_def)
  from ConfigurePrimaryNode_peer_failures_skipped [OF reply parsed slots]
  have "fst (ConfigurePrimaryNode ?E ''local'' 1 4 []) = Returns None"
    and "lookupsOf (snd (ConfigurePrimaryNode ?E ''local'' 1 4 []))
           = lookupsOf [] @ map nodeName (filter (\<lambda>p. p \<noteq> 1) [0..4 - 1])"
    by blast+
  with run unresolved refused resolved show ?thesis
    by blast
qed

section \<open>Properties of the cluster info reader\<close>

lemma Split_nonempty: "Split s sep \<noteq> []"
  by (induction s) (simp_all split: list.splits)

lemma length_Split: "length (Split s sep) = Suc (count_list s sep)"
proof (induction s)
  case Nil
  show ?case by simp
next
  case (Cons c cs)
  then show ?case
    using Split_nonempty [of cs sep] by (cases "Split cs sep") simp_all
qed

lemma addLine_skips:
  "length (Split line (CHR '':'')) \<noteq> 2 \<Longrightarrow> addLine i line = i"
  by (simp add: addLine_def Let_def)

lemma keys_addLine:
  "Mapping.keys (addLine i line) =
     (if length (Split line (CHR '':'')) = 2
      then insert (Split line (CHR '':'') ! 0) (Mapping.keys i)
      else Mapping.keys i)"
  by (simp add: addLine_def Let_def)

lemma finite_keys_foldl_addLine:
  "finite (Mapping.keys i) \<Longrightarrow> finite (Mapping.keys (foldl addLine i ls))"
  by (induction ls arbitrary: i) (simp_all add: keys_addLine)

lemma keys_foldl_addLine_empty:
  "Mapping.keys (foldl addLine i ls) = {} \<longleftrightarrow>
     Mapping.keys i = {} \<and> (\<forall>line \<in> set ls. length (Split line (CHR '':'')) \<noteq> 2)"
proof (induction ls arbitrary: i)
  case Nil
  show ?case by simp
next
  case (Cons l ls)
  show ?case
    by (simp add: Cons.IH keys_addLine)
qed

lemma foldl_addLine_filter:
  "foldl addLine i ls
     = foldl addLine i (filter (\<lambda>line. length (Split line (CHR '':'')) = 2) ls)"
  by (induction ls arbitrary: i) (simp_all add: addLine_skips)

lemma InfoFromString_error_iff:
  "(\<exists>e. InfoFromString input = Inl e) \<longleftrightarrow>
     (\<forall>line \<in> set (ScanLines input). length (Split line (CHR '':'')) \<noteq> 2)"
proof -
  let ?i = "foldl addLine Mapping.empty (ScanLines input)"
  have fin: "finite (Mapping.keys ?i)"
    by (rule finite_keys_foldl_addLine) simp
  have "(\<exists>e. InfoFromString input = Inl e) \<longleftrightarrow> Mapping.size ?i < 1"
    by (simp add: InfoFromString_def Let_def)
  also have "\<dots> \<longleftrightarrow> Mapping.keys ?i = {}"
    using fin by (simp add: Mapping.size_def)
  also have "\<dots> \<longleftrightarrow> (\<forall>line \<in> set (ScanLines input). length (Split line (CHR '':'')) \<noteq> 2)"
    by (simp add: keys_foldl_addLine_empty)
  finally show ?thesis .
qed

lemma count_list_butlast:
  "s \<noteq> [] \<Longrightarrow> last s \<noteq> c \<Longrightarrow> count_list (butlast s) c = count_list s c"
  by (induction s) (auto split: if_splits)

lemma length_Split_dropCR:
  "length (Split (dropCR s) (CHR '':'')) = length (Split s (CHR '':''))"
  by (simp add: length_Split dropCR_def count_list_butlast)

lemma scanTokens_line:
  "CHR 0x0A \<notin> set xs \<Longrightarrow>
     scanTokens cur (xs @ CHR 0x0A # ys) =
       (if MaxScanTokenSize \<le> length (cur @ xs) then []
        else dropCR (cur @ xs) # scanTokens [] ys)"
  by (induction xs arbitrary: cur) auto

lemma foldl_addLine_skip_line:
  assumes "CHR 0x0A \<notin> set bad" and "length bad < MaxScanTokenSize"
    and "length (Split bad (CHR '':'')) \<noteq> 2"
    and "(pre = [] \<longrightarrow> cur = []) \<and> (pre \<noteq> [] \<longrightarrow> last pre = CHR 0x0A)"
  shows "foldl addLine i (scanTokens cur (pre @ bad @ CHR 0x0A # post))
           = foldl addLine i (scanTokens cur (pre @ post))"
  using assms(4)
proof (induction pre arbitrary: cur i)
  case Nil
  then have "cur = []" by simp
  with assms(1,2,3) show ?case
    by (simp add: scanTokens_line addLine_skips length_Split_dropCR)
next
  case (Cons c cs)
  show ?case
  proof (cases "c = CHR 0x0A")
    case True
    have "(cs = [] \<longrightarrow> ([]::string) = []) \<and> (cs \<noteq> [] \<longrightarrow> last cs = CHR 0x0A)"
      using Cons.prems by auto
    from Cons.IH [OF this] True show ?thesis by simp
  next
    case False
    with Cons.prems have "cs \<noteq> []" by auto
    with Cons.prems have "(cs = [] \<longrightarrow> cur @ [c] = []) \<and> (cs \<noteq> [] \<longrightarrow> last cs = CHR 0x0A)"
      by auto
    from Cons.IH [OF this] False show ?thesis by simp
  qed
qed

text \<open>
  The text between line feeds is \<open>Split input (CHR 0x0A)\<close>. When each of these segments
  is shorter than the scanner's limit, the scanner returns every one of them (less a
  trailing carriage return, and less the empty text after a final line feed), so a
  property of the colons holds of the scanned lines exactly when it holds of the
  segments.
\<close>

lemma scanTokens_short_lines:
  assumes "\<forall>s \<in> set ((cur @ hd (Split input (CHR 0x0A))) # tl (Split input (CHR 0x0A))).
             length s < MaxScanTokenSize"
  shows "(\<forall>l \<in> set (scanTokens cur input). length (Split l (CHR '':'')) \<noteq> 2) \<longleftrightarrow>
         (\<forall>s \<in> set ((cur @ hd (Split input (CHR 0x0A))) # tl (Split input (CHR 0x0A))).
             length (Split s (CHR '':'')) \<noteq> 2)"
  using assms
proof (induction input arbitrary: cur)
  case Nil
  then show ?case
    by (auto simp: length_Split_dropCR)
next
  case (Cons c cs)
  obtain p ps where sp: "Split cs (CHR 0x0A) = p # ps"
    using Split_nonempty [of cs "CHR 0x0A"] by (cases "Split cs (CHR 0x0A)") simp_all
  show ?case
  proof (cases "c = CHR 0x0A")
    case True
    from Cons.prems True sp have short: "length cur < MaxScanTokenSize"
      and rest: "\<forall>s \<in> set (([] @ hd (Split cs (CHR 0x0A))) # tl (Split cs (CHR 0x0A))).
                   length s < MaxScanTokenSize"
      by simp_all
    from Cons.IH [OF rest] True short sp show ?thesis
      by (simp add: length_Split_dropCR)
  next
    case False
    from Cons.prems False sp
    have rest: "\<forall>s \<in> set (((cur @ [c]) @ hd (Split cs (CHR 0x0A))) # tl (Split cs (CHR 0x0A))).
                   length s < MaxScanTokenSize"
      by simp
    from Cons.IH [OF rest] False sp show ?thesis
      by simp
  qed
qed

lemma InfoFromString_short_lines_iff:
  assumes "\<forall>seg \<in> set (Split input (CHR 0x0A)). length seg < MaxScanTokenSize"
  shows "(\<exists>e. InfoFromString input = Inl e) \<longleftrightarrow>
         (\<forall>seg \<in> set (Split input (CHR 0x0A)). length (Split seg (CHR '':'')) \<noteq> 2)"
proof -
  have eq: "([] @ hd (Split input (CHR 0x0A))) # tl (Split input (CHR 0x0A))
              = Split input (CHR 0x0A)"
    using Split_nonempty [of input "CHR 0x0A"] by simp
  have "\<forall>s \<in> set (([] @ hd (Split input (CHR 0x0A))) # tl (Split input (CHR 0x0A))).
          length s < MaxScanTokenSize"
    using assms by (simp only: eq)
  from scanTokens_short_lines [OF this]
  have "(\<forall>l \<in> set (ScanLines input). length (Split l (CHR '':'')) \<noteq> 2) \<longleftrightarrow>
         (\<forall>seg \<in> set (Split input (CHR 0x0A)). length (Split seg (CHR '':'')) \<noteq> 2)"
    by (simp only: eq ScanLines_def)
  with InfoFromString_error_iff [of input] show ?thesis by simp
qed

lemma InfoFromString_skips_line:
  assumes "CHR 0x0A \<notin> set bad" and "length bad < MaxScanTokenSize"
    and "length (Split bad (CHR '':'')) \<noteq> 2"
    and "pre = [] \<or> last pre = CHR 0x0A"
  shows "InfoFromString (pre @ bad @ [CHR 0x0A] @ post) = InfoFromString (pre @ post)"
proof -
  from assms(4) have "(pre = [] \<longrightarrow> ([]::string) = []) \<and> (pre \<noteq> [] \<longrightarrow> last pre = CHR 0x0A)"
    by auto
  from foldl_addLine_skip_line [OF assms(1,2,3) this, of Mapping.empty post]
  show ?thesis
    by (simp add: InfoFromString_def ScanLines_def)
qed

lemma InfoFromString_one_line:
  assumes "CHR 0x0A \<notin> set good" and "length good < MaxScanTokenSize"
    and "length (Split good (CHR '':'')) = 2"
  shows "InfoFromString (good @ [CHR 0x0A])
           = Inr (Some (Mapping.update (Split (dropCR good) (CHR '':'') ! 0)
                          (Split (dropCR good) (CHR '':'') ! 1) Mapping.empty))"
  using assms
  by (simp add: InfoFromString_def ScanLines_def scanTokens_line addLine_def
      length_Split_dropCR Mapping.size_def Let_def)

text \<open>
  C6, where it fails. A malformed line of 65536 bytes, the size of the scanner's buffer,
  is followed by a well-formed line. \<^verbatim>\<open>Scan\<close> returns false at the long line, the
  loop ends before the well-formed line is read, and \<^verbatim>\<open>InfoFromString\<close> returns the
  parse error, although the well-formed line alone parses.
\<close>

theorem InfoFromString_long_line_counterexample:
  "InfoFromString (replicate 65536 (CHR ''a'') @ ''\<newline>cluster_state:ok\<newline>'')
     = Inl NoClusterInfoFound
   \<and> length (Split (replicate 65536 (CHR ''a'')) (CHR '':'')) = 1
   \<and> length (Split ''cluster_state:ok'' (CHR '':'')) = 2
   \<and> InfoFromString ''cluster_state:ok\<newline>''
       = Inr (Some (Mapping.update ''cluster_state'' ''ok'' Mapping.empty))"
proof -
  have "InfoFromString (replicate 65536 (CHR ''a'') @ ''\<newline>cluster_state:ok\<newline>'')
          = Inl NoClusterInfoFound"
    by (simp add: InfoFromString_def ScanLines_def scanTokens_line MaxScanTokenSize_def)
  moreover have "length (Split (replicate 65536 (CHR ''a'')) (CHR '':'')) = 1"
    by (simp add: length_Split count_list_0_iff)
  moreover have "length (Split ''cluster_state:ok'' (CHR '':'')) = 2"
    by simp
  moreover have "InfoFromString ''cluster_state:ok\<newline>''
       = Inr (Some (Mapping.update ''cluster_state'' ''ok'' Mapping.empty))"
    by (simp add: info_eval)
  ultimately show ?thesis by blast
qed

text \<open>
  C6 as amended. For an input in which the text between line feeds is always shorter
  than 65536 bytes, \<^verbatim>\<open>InfoFromString\<close> returns the parse error exactly when no line
  of the input splits at colons into two pieces, that is, has exactly one colon. For any
  input it returns the error exactly when no line the scanner returned does. A
  malformed line shorter than the limit is skipped wherever it stands: the result is
  that of the input without the line. A malformed line followed by a well-formed one
  (both shorter than the limit) parses to the one field of the well-formed line. The
  two-field report parses to a snapshot with state \<open>ok\<close> and local epoch 3, and the
  empty input is an error.
\<close>

theorem InfoFromString_short_lines:
  "((\<forall>seg \<in> set (Split input (CHR 0x0A)). length seg < MaxScanTokenSize) \<longrightarrow>
      ((\<exists>e. InfoFromString input = Inl e) \<longleftrightarrow>
         (\<forall>seg \<in> set (Split input (CHR 0x0A)). length (Split seg (CHR '':'')) \<noteq> 2)))
   \<and> ((\<exists>e. InfoFromString input = Inl e) \<longleftrightarrow>
        (\<forall>line \<in> set (ScanLines input). length (Split line (CHR '':'')) \<noteq> 2))
   \<and> (InfoFromString input = Inl NoClusterInfoFound \<or> (\<exists>m. InfoFromString input = Inr (Some m)))
   \<and> (length (Split line (CHR '':'')) = 2 \<longleftrightarrow> count_list line (CHR '':'') = 1)
   \<and> (length (Split line (CHR '':'')) \<noteq> 2 \<longrightarrow> addLine i line = i)
   \<and> foldl addLine Mapping.empty (ScanLines input)
       = foldl addLine Mapping.empty
           (filter (\<lambda>line. length (Split line (CHR '':'')) = 2) (ScanLines input))
   \<and> (CHR 0x0A \<notin> set bad \<and> length bad < MaxScanTokenSize
        \<and> length (Split bad (CHR '':'')) \<noteq> 2 \<and> (pre = [] \<or> last pre = CHR 0x0A)
      \<longrightarrow> InfoFromString (pre @ bad @ [CHR 0x0A] @ post) = InfoFromString (pre @ post))
   \<and> (CHR 0x0A \<notin> set bad \<and> length bad < MaxScanTokenSize
        \<and> length (Split bad (CHR '':'')) \<noteq> 2
        \<and> CHR 0x0A \<notin> set good \<and> length good < MaxScanTokenSize
        \<and> length (Split good (CHR '':'')) = 2
      \<longrightarrow> InfoFromString (bad @ [CHR 0x0A] @ good @ [CHR 0x0A])
            = Inr (Some (Mapping.update (Split (dropCR good) (CHR '':'') ! 0)
                           (Split (dropCR good) (CHR '':'') ! 1) Mapping.empty)))
   \<and> (\<exists>ci. InfoFromString ''cluster_state:ok\<newline>cluster_current_epoch:3\<newline>'' = Inr ci
            \<and> State ci = StateOK \<and> LocalEpoch ci = 3)
   \<and> InfoFromString [] = Inl NoClusterInfoFound
   \<and> InfoFromString ''not a field\<newline>cluster_state:ok\<newline>''
       = InfoFromString ''cluster_state:ok\<newline>''
   \<and> InfoFromString ''cluster_state:ok\<newline>''
       = Inr (Some (Mapping.update ''cluster_state'' ''ok'' Mapping.empty))"
proof -
  have c1: "(\<forall>seg \<in> set (Split input (CHR 0x0A)). length seg < MaxScanTokenSize) \<longrightarrow>
      ((\<exists>e. InfoFromString input = Inl e) \<longleftrightarrow>
         (\<forall>seg \<in> set (Split input (CHR 0x0A)). length (Split seg (CHR '':'')) \<noteq> 2))"
    using InfoFromString_short_lines_iff [of input] by blast
  have c2: "(\<exists>e. InfoFromString input = Inl e) \<longleftrightarrow>
        (\<forall>line \<in> set (ScanLines input). length (Split line (CHR '':'')) \<noteq> 2)"
    by (rule InfoFromString_error_iff)
  have c3: "InfoFromString input = Inl NoClusterInfoFound
              \<or> (\<exists>m. InfoFromString input = Inr (Some m))"
    by (simp add: InfoFromString_def Let_def)
  have c4: "length (Split line (CHR '':'')) = 2 \<longleftrightarrow> count_list line (CHR '':'') = 1"
    by (simp add: length_Split)
  have c5: "length (Split line (CHR '':'')) \<noteq> 2 \<longrightarrow> addLine i line = i"
    by (simp add: addLine_skips)
  have c6: "foldl addLine Mapping.empty (ScanLines input)
       = foldl addLine Mapping.empty
           (filter (\<lambda>line. length (Split line (CHR '':'')) = 2) (ScanLines input))"
    by (rule foldl_addLine_filter)
  have c7: "CHR 0x0A \<notin> set bad \<and> length bad < MaxScanTokenSize
        \<and> length (Split bad (CHR '':'')) \<noteq> 2 \<and> (pre = [] \<or> last pre = CHR 0x0A)
      \<longrightarrow> InfoFromString (pre @ bad @ [CHR 0x0A] @ post) = InfoFromString (pre @ post)"
    using InfoFromString_skips_line [of bad pre post] by blast
  have c8: "CHR 0x0A \<notin> set bad \<and> length bad < MaxScanTokenSize
        \<and> length (Split bad (CHR '':'')) \<noteq> 2
        \<and> CHR 0x0A \<notin> set good \<and> length good < MaxScanTokenSize
        \<and> length (Split good (CHR '':'')) = 2
      \<longrightarrow> InfoFromString (bad @ [CHR 0x0A] @ good @ [CHR 0x0A])
            = Inr (Some (Mapping.update (Split (dropCR good) (CHR '':'') ! 0)
                           (Split (dropCR good) (CHR '':'') ! 1) Mapping.empty))"
  proof (intro impI, elim conjE)
    assume b: "CHR 0x0A \<notin> set bad" "length bad < MaxScanTokenSize"
      "length (Split bad (CHR '':'')) \<noteq> 2"
      and g: "CHR 0x0A \<notin> set good" "length good < MaxScanTokenSize"
      "length (Split good (CHR '':'')) = 2"
    have "InfoFromString ([] @ bad @ [CHR 0x0A] @ (good @ [CHR 0x0A]))
            = InfoFromString ([] @ (good @ [CHR 0x0A]))"
      using b by (intro InfoFromString_skips_line) simp_all
    with InfoFromString_one_line [OF g]
    show "InfoFromString (bad @ [CHR 0x0A] @ good @ [CHR 0x0A])
            = Inr (Some (Mapping.update (Split (dropCR good) (CHR '':'') ! 0)
                           (Split (dropCR good) (CHR '':'') ! 1) Mapping.empty))"
      by simp
  qed
  have c9: "\<exists>ci. InfoFromString ''cluster_state:ok\<newline>cluster_current_epoch:3\<newline>'' = Inr ci
            \<and> State ci = StateOK \<and> LocalEpoch ci = 3"
    by (simp add: info_eval State_def StateInfoKey_def StateOK_def)
  have c10: "InfoFromString [] = Inl NoClusterInfoFound"
    by (simp add: info_eval)
  have c11: "InfoFromString ''not a field\<newline>cluster_state:ok\<newline>''
       = InfoFromString ''cluster_state:ok\<newline>''"
    by (simp add: info_eval)
  have c12: "InfoFromString ''cluster_state:ok\<newline>''
       = Inr (Some (Mapping.update ''cluster_state'' ''ok'' Mapping.empty))"
    by (simp add: info_eval)
  show ?thesis
    by (intro conjI) (fact c1 c2 c3 c4 c5 c6 c7 c8 c9 c10 c11 c12)+
qed

theorem InfoFromString_short_lines_witness:
  "Split ''not a field\<newline>cluster_state:ok\<newline>'' (CHR 0x0A)
     = [''not a field'', ''cluster_state:ok'', []]
   \<and> length ''not a field'' < MaxScanTokenSize
   \<and> length ''cluster_state:ok'' < MaxScanTokenSize
   \<and> length (Split ''not a field'' (CHR '':'')) = 1
   \<and> length (Split ''cluster_state:ok'' (CHR '':'')) = 2
   \<and> addLine Mapping.empty ''not a field'' = Mapping.empty
   \<and> \<not> (\<exists>e. InfoFromString ''not a field\<newline>cluster_state:ok\<newline>'' = Inl e)
   \<and> InfoFromString (''not a field'' @ [CHR 0x0A] @ ''cluster_state:ok'' @ [CHR 0x0A])
       = Inr (Some (Mapping.update ''cluster_state'' ''ok'' Mapping.empty))
   \<and> InfoFromString ([] @ ''not a field'' @ [CHR 0x0A] @ ''cluster_state:ok\<newline>'')
       = InfoFromString ([] @ ''cluster_state:ok\<newline>'')
   \<and> Split ''::\<newline>\<newline>x'' (CHR 0x0A) = [''::'', [], ''x'']
   \<and> length (Split ''::'' (CHR '':'')) = 3
   \<and> length (Split [] (CHR '':'')) = 1
   \<and> length (Split ''x'' (CHR '':'')) = 1
   \<and> (\<exists>e. InfoFromString ''::\<newline>\<newline>x'' = Inl e)"
proof -
  let ?in = "''not a field\<newline>cluster_state:ok\<newline>''"
  have segs: "Split ?in (CHR 0x0A) = [''not a field'', ''cluster_state:ok'', []]"
    by simp
  have short: "\<forall>seg \<in> set (Split ?in (CHR 0x0A)). length seg < MaxScanTokenSize"
    by (simp add: MaxScanTokenSize_def)
  have lens: "length ''not a field'' < MaxScanTokenSize"
    "length ''cluster_state:ok'' < MaxScanTokenSize"
    by (simp_all add: MaxScanTokenSize_def)
  have nolf: "CHR 0x0A \<notin> set ''not a field''" "CHR 0x0A \<notin> set ''cluster_state:ok''"
    by simp_all
  have bad: "length (Split ''not a field'' (CHR '':'')) = 1"
    by simp
  have good: "length (Split ''cluster_state:ok'' (CHR '':'')) = 2"
    by simp
  have field: "Split (dropCR ''cluster_state:ok'') (CHR '':'') = [''cluster_state'', ''ok'']"
    by (simp add: dropCR_def)
  have segs2: "Split ''::\<newline>\<newline>x'' (CHR 0x0A) = [''::'', [], ''x'']"
    by simp
  have short2: "\<forall>seg \<in> set (Split ''::\<newline>\<newline>x'' (CHR 0x0A)). length seg < MaxScanTokenSize"
    by (simp add: MaxScanTokenSize_def)
  have pieces: "length (Split ''::'' (CHR '':'')) = 3" "length (Split [] (CHR '':'')) = 1"
    "length (Split ''x'' (CHR '':'')) = 1"
    by simp_all
  from InfoFromString_short_lines
         [of ?in "''not a field''" Mapping.empty "''not a field''" "[]"
             "''cluster_state:ok\<newline>''" "''cluster_state:ok''"]
  have a: "\<not> (\<exists>e. InfoFromString ?in = Inl e)"
    and b: "addLine Mapping.empty ''not a field'' = Mapping.empty"
    and c: "InfoFromString ([] @ ''not a field'' @ [CHR 0x0A] @ ''cluster_state:ok\<newline>'')
              = InfoFromString ([] @ ''cluster_state:ok\<newline>'')"
    and d: "InfoFromString (''not a field'' @ [CHR 0x0A] @ ''cluster_state:ok'' @ [CHR 0x0A])
              = Inr (Some (Mapping.update ''cluster_state'' ''ok'' Mapping.empty))"
    using short segs lens nolf bad good field by simp_all
  from InfoFromString_short_lines
         [of "''::\<newline>\<newline>x''" "[]" Mapping.empty "[]" "[]" "[]" "[]"]
  have e: "\<exists>e. InfoFromString ''::\<newline>\<newline>x'' = Inl e"
    using short2 segs2 pieces by simp
  from segs lens bad good a b c d segs2 pieces e show ?thesis
    by blast
qed

lemma ParseInt32_range:
  "ParseInt32 s = Some v \<Longrightarrow> - (2 ^ 31) \<le> v \<and> v < 2 ^ 31"
  by (auto simp: ParseInt32_def Let_def split: if_splits option.splits)

text \<open>
  C10. The integer accessors are \<^verbatim>\<open>getInt32\<close> at their five keys, a function with
  no failing branch whose value is always a 32-bit integer; it is -1 when the snapshot is
  nil, when the key is absent and when the value is not a 32-bit decimal integer. So a
  snapshot without the epoch field does not pass the \<open>epoch > 0\<close> check, and one without
  the slots-assigned field does not pass the \<open>slots assigned > 0\<close> check: the primary then
  issues the slot assignment for its range.
\<close>

theorem accessors_return_sentinel:
  "(ci = None
      \<or> (\<exists>m. ci = Some m
            \<and> (Mapping.lookup m keyName = None
                \<or> (\<exists>valString. Mapping.lookup m keyName = Some valString
                                  \<and> ParseInt32 valString = None)))
    \<longrightarrow> getInt32 ci keyName = - 1)
   \<and> - (2 ^ 31) \<le> getInt32 ci keyName \<and> getInt32 ci keyName < 2 ^ 31
   \<and> ClusterEpoch ci = getInt32 ci ''cluster_current_epoch''
   \<and> LocalEpoch ci = getInt32 ci ''cluster_current_epoch''
   \<and> Size ci = getInt32 ci ''cluster_size''
   \<and> SlotsAssigned ci = getInt32 ci ''cluster_slots_assigned''
   \<and> KnownNodeCount ci = getInt32 ci ''cluster_known_nodes''
   \<and> (Mapping.lookup m ''cluster_current_epoch'' = None \<longrightarrow> \<not> 0 < LocalEpoch (Some m))
   \<and> (Mapping.lookup m ''cluster_slots_assigned'' = None \<longrightarrow>
        \<not> 0 < SlotsAssigned (Some m)
        \<and> (Do_reply E (t @ [Do vc ClusterInfo]) = Inr report
             \<and> InfoFromReader E report = Inr (Some m)
             \<and> slotRange ourIndex primaryCount = Some (firstSlot, lastSlot)
           \<longrightarrow> filter isAddslotsrange (snd (ConfigurePrimaryNode E vc ourIndex primaryCount t))
                 = filter isAddslotsrange t @ [Do vc (ClusterAddslotsrange firstSlot lastSlot)]))"
proof -
  have range: "- (2 ^ 31) \<le> getInt32 ci keyName \<and> getInt32 ci keyName < 2 ^ 31"
    using ParseInt32_range by (auto simp: getInt32_def split: option.splits)
  have sentinel: "ci = None
      \<or> (\<exists>m. ci = Some m
            \<and> (Mapping.lookup m keyName = None
                \<or> (\<exists>valString. Mapping.lookup m keyName = Some valString
                                  \<and> ParseInt32 valString = None)))
    \<longrightarrow> getInt32 ci keyName = - 1"
    by (auto simp: getInt32_def)
  have keys: "ClusterEpoch ci = getInt32 ci ''cluster_current_epoch''"
    "LocalEpoch ci = getInt32 ci ''cluster_current_epoch''"
    "Size ci = getInt32 ci ''cluster_size''"
    "SlotsAssigned ci = getInt32 ci ''cluster_slots_assigned''"
    "KnownNodeCount ci = getInt32 ci ''cluster_known_nodes''"
    by (simp_all add: ClusterEpoch_def LocalEpoch_def Size_def SlotsAssigned_def
        KnownNodeCount_def EpochInfoKey_def LocalEpochInfoKey_def SizeInfoKey_def
        SlotsAssignedInfoKey_def KnownNodeCountInfoKey_def)
  have epoch: "Mapping.lookup m ''cluster_current_epoch'' = None \<longrightarrow> \<not> 0 < LocalEpoch (Some m)"
    by (simp add: LocalEpoch_def LocalEpochInfoKey_def getInt32_def)
  have slots: "Mapping.lookup m ''cluster_slots_assigned'' = None \<longrightarrow>
        \<not> 0 < SlotsAssigned (Some m)"
    by (simp add: SlotsAssigned_def SlotsAssignedInfoKey_def getInt32_def)
  have issue: "Mapping.lookup m ''cluster_slots_assigned'' = None \<longrightarrow>
        (Do_reply E (t @ [Do vc ClusterInfo]) = Inr report
             \<and> InfoFromReader E report = Inr (Some m)
             \<and> slotRange ourIndex primaryCount = Some (firstSlot, lastSlot)
           \<longrightarrow> filter isAddslotsrange (snd (ConfigurePrimaryNode E vc ourIndex primaryCount t))
                 = filter isAddslotsrange t @ [Do vc (ClusterAddslotsrange firstSlot lastSlot)])"
    using slots by (simp add: ConfigurePrimaryNode_addslots)
  from range sentinel keys epoch slots issue show ?thesis
    by blast
qed

theorem accessors_return_sentinel_witness:
  "getInt32 None ''cluster_size'' = - 1
   \<and> Mapping.lookup (Mapping.update ''cluster_size'' ''many'' Mapping.empty) ''cluster_known_nodes''
       = None
   \<and> getInt32 (Some (Mapping.update ''cluster_size'' ''many'' Mapping.empty)) ''cluster_known_nodes''
       = - 1
   \<and> ParseInt32 ''many'' = None
   \<and> getInt32 (Some (Mapping.update ''cluster_size'' ''many'' Mapping.empty)) ''cluster_size'' = - 1
   \<and> \<not> 0 < LocalEpoch (Some (Mapping.update ''cluster_size'' ''many'' Mapping.empty))
   \<and> filter isAddslotsrange
        (snd (ConfigurePrimaryNode (fakeStore ''cluster_size:many\<newline>'') ''local'' 0 1 []))
       = [Do ''local'' (ClusterAddslotsrange 0 16383)]"
proof -
  let ?m = "Mapping.update ''cluster_size'' ''many'' Mapping.empty"
  let ?E = "fakeStore ''cluster_size:many\<newline>''"
  have absent: "Mapping.lookup ?m ''cluster_known_nodes'' = None"
    "Mapping.lookup ?m ''cluster_current_epoch'' = None"
    "Mapping.lookup ?m ''cluster_slots_assigned'' = None"
    by simp_all
  have present: "Mapping.lookup ?m ''cluster_size'' = Some ''many''"
    by simp
  have unparsed: "ParseInt32 ''many'' = None"
    by (simp add: ParseInt32_def digitVal_def)
  have reply: "Do_reply ?E ([] @ [Do ''local'' ClusterInfo]) = Inr ''cluster_size:many\<newline>''"
    by (simp add: fakeStore_def)
  have parsed: "InfoFromReader ?E ''cluster_size:many\<newline>'' = Inr (Some ?m)"
    by (simp add: fakeStore_def info_eval)
  have range: "slotRange 0 1 = Some (0, 16383)"
    by (simp add: plan_eval)
  from accessors_return_sentinel [of None "''cluster_size''" ?m ?E "[]" "''local''"
         "''cluster_size:many\<newline>''" 0 1 0 16383]
       accessors_return_sentinel [of "Some ?m" "''cluster_known_nodes''" ?m ?E "[]" "''local''"
         "''cluster_size:many\<newline>''" 0 1 0 16383]
       accessors_return_sentinel [of "Some ?m" "''cluster_size''" ?m ?E "[]" "''local''"
         "''cluster_size:many\<newline>''" 0 1 0 16383]
       absent present unparsed reply parsed range
  show ?thesis by simp
qed


section \<open>Properties of an attempt\<close>

lemma primaryCount_pos: "1 \<le> fst (primariesAndReplicas totalCount)"
  by (simp add: primariesAndReplicas_def Let_def)

lemma ConfigureReplicaNode_no_panic:
  assumes "primaryCount \<noteq> 0"
    and "ConfigureReplicaNode E vc ourIndex primaryCount t = Some (r, t')"
  shows "r \<noteq> Panics"
  using assms
  by (auto simp: ConfigureReplicaNode_def ourPrimary_def Let_def
      split: prod.splits sum.splits option.splits)

lemma EnsureClusterInitialized_no_panic:
  assumes "primaryCount \<noteq> 0"
    and "EnsureClusterInitialized E vc ourIndex primaryCount t = Some (r, t')"
  shows "r \<noteq> Panics"
proof (cases "ourIndex < primaryCount")
  case True
  with assms(2) have "r = fst (ConfigurePrimaryNode E vc ourIndex primaryCount t)"
    by (auto simp: EnsureClusterInitialized_def)
  with ConfigurePrimaryNode_no_panic [OF assms(1)] show ?thesis by simp
next
  case False
  with assms(2) have "ConfigureReplicaNode E vc ourIndex primaryCount t = Some (r, t')"
    by (simp add: EnsureClusterInitialized_def)
  with ConfigureReplicaNode_no_panic [OF assms(1)] show ?thesis by blast
qed

lemma Configure_no_panic:
  assumes "Configure E ss ourIndex t = Some (r, t')"
  shows "r \<noteq> Panics"
proof
  assume p: "r = Panics"
  from assms p obtain replicas :: "32 word" and vc t1 where
    "EnsureClusterInitialized E vc (uint ourIndex)
       (fst (primariesAndReplicas (sint replicas))) t1 = Some (Panics, t')"
    by (auto simp: Configure_def Let_def
        split: option.splits prod.splits sum.splits outcome.splits)
  moreover have "fst (primariesAndReplicas (sint replicas)) \<noteq> 0"
    using primaryCount_pos [of "sint replicas"] by simp
  ultimately show False
    using EnsureClusterInitialized_no_panic by blast
qed

text \<open>
  C7, where it fails. The snapshot carries a count of zero; the store is up. The attempt
  is not aborted: \<^verbatim>\<open>Configure\<close> pings the local store, plans one primary, configures
  member 0 as that primary with three commands in all, and returns nil.
\<close>

theorem Configure_zero_count_counterexample:
  "Configure (fakeStore ''cluster_state:ok\<newline>'') (Some \<lparr>Replicas = Some 0\<rparr>) 0 []
     = Some (Returns None,
             [NewClient ''127.0.0.1:6379'',
              Do ''127.0.0.1:6379'' Ping,
              Do ''127.0.0.1:6379'' ClusterInfo,
              Do ''127.0.0.1:6379'' (ClusterAddslotsrange 0 16383)])"
  by (simp add: Configure_def WaitPing_fakeStore name_eval)
    (simp add: EnsureClusterInitialized_def run_eval info_eval plan_eval)

text \<open>
  C7 as amended. When the membership snapshot is missing or carries no count (either
  pointer is nil), \<^verbatim>\<open>Configure\<close> returns the error about the replica count and adds
  no event: no client is made and no command is run.
\<close>

theorem Configure_missing_count_aborts:
  assumes "ss = None \<or> (\<exists>s. ss = Some s \<and> Replicas s = None)"
  shows "Configure E ss ourIndex t = Some (Returns (Some NoReplicaCount), t)"
  using assms by (auto simp: Configure_def)

theorem Configure_missing_count_aborts_witness:
  "Configure (fakeStore ''cluster_state:ok\<newline>'') None 0 []
     = Some (Returns (Some NoReplicaCount), [])
   \<and> Replicas \<lparr>Replicas = None\<rparr> = None
   \<and> Configure (fakeStore ''cluster_state:ok\<newline>'') (Some \<lparr>Replicas = None\<rparr>) 0 []
     = Some (Returns (Some NoReplicaCount), [])"
proof -
  have nil_field: "Replicas \<lparr>Replicas = None\<rparr> = None"
    by simp
  have a: "(None :: StatefulSet option) = None \<or> (\<exists>s. None = Some s \<and> Replicas s = None)"
    by simp
  have b: "Some \<lparr>Replicas = None\<rparr> = None
           \<or> (\<exists>s. Some \<lparr>Replicas = None\<rparr> = Some s \<and> Replicas s = None)"
    by simp
  from Configure_missing_count_aborts [OF a] Configure_missing_count_aborts [OF b] nil_field
  show ?thesis by simp
qed

text \<open>
  C5. The flag of a new handler is false. An attempt completes exactly when its
  \<^verbatim>\<open>Configure\<close> call returns; \<^verbatim>\<open>Configure\<close> does not panic; and after the attempt
  the flag is true if and only if \<^verbatim>\<open>Configure\<close> returned nil, whatever the flag was
  before.
\<close>

theorem updater_sets_flag:
  "\<not> ClusterConfigured UpdateHandler
   \<and> (updater E ourIndex h ss t = None \<longleftrightarrow> Configure E ss ourIndex t = None)
   \<and> (Configure E ss ourIndex t = Some (r, t') \<longrightarrow>
        (\<exists>e h'. r = Returns e
                \<and> updater E ourIndex h ss t = Some (Returns h', t')
                \<and> (ClusterConfigured h' \<longleftrightarrow> e = None)))"
proof -
  have "\<not> ClusterConfigured UpdateHandler"
    by (simp add: ClusterConfigured_def UpdateHandler_def)
  moreover have "updater E ourIndex h ss t = None \<longleftrightarrow> Configure E ss ourIndex t = None"
    by (simp add: updater_def split: option.splits prod.splits outcome.splits)
  moreover have "Configure E ss ourIndex t = Some (r, t') \<longrightarrow>
        (\<exists>e h'. r = Returns e
                \<and> updater E ourIndex h ss t = Some (Returns h', t')
                \<and> (ClusterConfigured h' \<longleftrightarrow> e = None))"
  proof
    assume c: "Configure E ss ourIndex t = Some (r, t')"
    then obtain e where e: "r = Returns e"
      using Configure_no_panic [OF c] by (cases r) simp_all
    show "\<exists>e h'. r = Returns e
                \<and> updater E ourIndex h ss t = Some (Returns h', t')
                \<and> (ClusterConfigured h' \<longleftrightarrow> e = None)"
      using c e by (cases e) (simp_all add: updater_def ClusterConfigured_def)
  qed
  ultimately show ?thesis by blast
qed

theorem updater_sets_flag_witness:
  "Configure (fakeStore ''cluster_state:ok\<newline>'') (Some \<lparr>Replicas = Some 1\<rparr>) 0 []
     = Some (Returns None,
             [NewClient ''127.0.0.1:6379'', Do ''127.0.0.1:6379'' Ping,
              Do ''127.0.0.1:6379'' ClusterInfo,
              Do ''127.0.0.1:6379'' (ClusterAddslotsrange 0 16383)])
   \<and> (\<exists>h'. updater (fakeStore ''cluster_state:ok\<newline>'') 0 UpdateHandler
              (Some \<lparr>Replicas = Some 1\<rparr>) []
            = Some (Returns h',
                    [NewClient ''127.0.0.1:6379'', Do ''127.0.0.1:6379'' Ping,
                     Do ''127.0.0.1:6379'' ClusterInfo,
                     Do ''127.0.0.1:6379'' (ClusterAddslotsrange 0 16383)])
          \<and> ClusterConfigured h')
   \<and> Configure (fakeStore ''cluster_state:ok\<newline>'') None 0 []
       = Some (Returns (Some NoReplicaCount), [])
   \<and> (\<exists>h'. updater (fakeStore ''cluster_state:ok\<newline>'') 0 \<lparr>clusterConfigured = True\<rparr> None []
            = Some (Returns h', [])
          \<and> \<not> ClusterConfigured h')"
proof -
  let ?E = "fakeStore ''cluster_state:ok\<newline>''"
  let ?t = "[NewClient ''127.0.0.1:6379'', Do ''127.0.0.1:6379'' Ping,
             Do ''127.0.0.1:6379'' ClusterInfo,
             Do ''127.0.0.1:6379'' (ClusterAddslotsrange 0 16383)]"
  have good: "Configure ?E (Some \<lparr>Replicas = Some 1\<rparr>) 0 [] = Some (Returns None, ?t)"
    by (simp add: Configure_def WaitPing_fakeStore name_eval)
      (simp add: EnsureClusterInitialized_def run_eval info_eval plan_eval)
  have bad: "Configure ?E None 0 [] = Some (Returns (Some NoReplicaCount), [])"
    by (simp add: Configure_def)
  from updater_sets_flag [of ?E 0 UpdateHandler "Some \<lparr>Replicas = Some 1\<rparr>" "[]"
         "Returns None" ?t]
       updater_sets_flag [of ?E 0 "\<lparr>clusterConfigured = True\<rparr>" None "[]"
         "Returns (Some NoReplicaCount)" "[]"]
       good bad
  show ?thesis by auto
qed

subsection \<open>Roles\<close>







end
